theory Spec2Isabelle
  imports
    Complex_Main
    "HOL-Library.Multiset"
    "HOL-Library.AList"
    "HOL-Library.Char_ord"
    "HOL-Library.List_Lexorder"
    "HOL-Library.Product_Lexorder"
begin

section \<open>The earthquake dashboard script (12.py)\<close>

text \<open>
  The repository is one top-to-bottom script: an HTTP GET, a pandas table built from the
  JSON answer, a cleaning pass (coordinates, magnitude, date), a threshold filter and four
  charts. The embedding follows the script line by line. What the script takes from
  outside (the HTTP answer, the slider position, the clock, the random generator and the
  parsers of pandas) is a field of the record \<open>env\<close>; what it does to the outside (each
  call of requests and streamlit) is an entry of a trace, in program order.

  Numbers are rationals: the properties below are about order and equality, not about
  rounding. Static texts that carry accented letters in the source are written here
  without the accents, and the three long paragraphs of lines 13, 131 and 140 are each
  stood for by one word.
\<close>

subsection \<open>Cells, rows and frames\<close>

text \<open>
  A cell of a pandas frame: missing (NaN, None and NaT alike), a number, a string, or a
  timestamp in microseconds since the epoch.
\<close>

datatype cell = NaN | Num rat | Str string | Timestamp int

text \<open>A parsed JSON object: a Python dict, keys in insertion order.\<close>

type_synonym json_object = "(string \<times> cell) list"

text \<open>A row: its index label and one cell per column label.\<close>

type_synonym row = "nat \<times> (string \<times> cell) list"

datatype dataframe = DataFrame (columns: "string list") (rows: "row list")

definition cell_at :: "(string \<times> cell) list \<Rightarrow> string \<Rightarrow> cell" where
  "cell_at r c = (case map_of r c of Some v \<Rightarrow> v | None \<Rightarrow> NaN)"

text \<open>
  \<^verbatim>\<open>pd.DataFrame(datos_sismos)\<close> on a list of dicts: the columns are the keys in order
  of first appearance, the index is 0, 1, ..., and a key a dict lacks is a missing cell.
\<close>

definition pd_DataFrame :: "json_object list \<Rightarrow> dataframe" where
  "pd_DataFrame recs =
     (let cols = rev (remdups (rev (concat (map (map fst) recs))))
      in DataFrame cols
           (map (\<lambda>(i, r). (i, map (\<lambda>c. (c, cell_at r c)) cols)) (enumerate 0 recs)))"

definition shape0 :: "dataframe \<Rightarrow> nat" where
  "shape0 df = length (rows df)"

text \<open>\<^verbatim>\<open>df[c]\<close>, read: the cells of one column, in row order.\<close>

definition getitem :: "dataframe \<Rightarrow> string \<Rightarrow> cell list" where
  "getitem df c = map (\<lambda>(i, r). cell_at r c) (rows df)"

text \<open>
  \<^verbatim>\<open>df[c] = values\<close>: an existing column is overwritten in place, a new one is appended.
  Every call of the script passes exactly \<open>shape0 df\<close> values.
\<close>

definition setitem :: "string \<Rightarrow> cell list \<Rightarrow> dataframe \<Rightarrow> dataframe" where
  "setitem c vs df =
     DataFrame (if c \<in> set (columns df) then columns df else columns df @ [c])
       (map (\<lambda>((i, r), v). (i, AList.update c v r)) (zip (rows df) vs))"

text \<open>\<^verbatim>\<open>df.rename(columns=..., inplace=True)\<close>: labels are replaced, cells stay.\<close>

definition rename :: "(string \<Rightarrow> string) \<Rightarrow> dataframe \<Rightarrow> dataframe" where
  "rename f df =
     DataFrame (map f (columns df))
       (map (\<lambda>(i, r). (i, map (\<lambda>(k, v). (f k, v)) r)) (rows df))"

definition lat_lon_labels :: "string \<Rightarrow> string" where
  "lat_lon_labels c =
     (if c = ''lat'' then ''Latitud'' else if c = ''lon'' then ''Longitud'' else c)"

text \<open>Boolean-mask selection \<^verbatim>\<open>df[mask]\<close>: the rows whose mask entry is true, labels kept.\<close>

definition select_rows :: "((string \<times> cell) list \<Rightarrow> bool) \<Rightarrow> dataframe \<Rightarrow> dataframe" where
  "select_rows p df = DataFrame (columns df) (filter (\<lambda>(i, r). p r) (rows df))"

text \<open>A comparison with a missing value is false, as with a float NaN.\<close>

fun ge_cell :: "cell \<Rightarrow> rat \<Rightarrow> bool" where
  "ge_cell (Num x) m = (m \<le> x)"
| "ge_cell _ m = False"

text \<open>
  \<^verbatim>\<open>df.dropna(subset=labels)\<close>: a row goes when a cell under one of the labels is
  missing. Should a label stand over two columns, both are looked at.
\<close>

definition dropna :: "string list \<Rightarrow> dataframe \<Rightarrow> dataframe" where
  "dropna labels df =
     select_rows (\<lambda>r. NaN \<notin> set (map snd (filter (\<lambda>(k, v). k \<in> set labels) r))) df"

text \<open>
  \<^verbatim>\<open>df.sort_values(c)\<close> on a column of strings and missing cells: strings ascending,
  missing cells last. The order pandas gives to rows with equal keys is not fixed by its
  default sort; the model keeps their order, and no statement below depends on it.
\<close>

fun sort_rank :: "cell \<Rightarrow> bool \<times> string" where
  "sort_rank (Str s) = (False, s)"
| "sort_rank _ = (True, [])"

definition sort_values :: "string \<Rightarrow> dataframe \<Rightarrow> dataframe" where
  "sort_values c df =
     DataFrame (columns df) (sort_key (\<lambda>(i, r). sort_rank (cell_at r c)) (rows df))"

definition head :: "dataframe \<Rightarrow> dataframe" where
  "head df = DataFrame (columns df) (take 5 (rows df))"

subsection \<open>The outside world\<close>

datatype response = Response (status_code: int) (json: "json_object list option")

datatype exn = RequestException | JSONDecodeError | KeyError string | ValueError | AttributeError

text \<open>
  \<open>respuesta\<close> is what \<^verbatim>\<open>requests.get\<close> returns (\<open>None\<close>: it raised instead);
  \<open>json\<close> is \<open>None\<close> when the body is not JSON. Only a body that is a list of objects
  is modelled. \<open>slider_choice\<close> is the position the user gave the slider (\<open>None\<close>:
  untouched). \<open>random_sample\<close> is the stream of numbers in \<open>[0, 1)\<close> behind numpy's
  global generator, read at successive positions. \<open>to_numeric\<close> is what
  \<^verbatim>\<open>pd.to_numeric(errors='coerce')\<close> makes of one cell (\<open>None\<close>: it does not parse).

  \<open>to_datetime\<close> is \<^verbatim>\<open>pd.to_datetime(errors='coerce')\<close> followed by the \<^verbatim>\<open>.dt\<close> accessor
  of line 58, on a whole column: pandas reads the format off the column, so what a value
  parses to depends on the values around it, and on some columns (dates with different
  UTC offsets, for one) line 55 or line 58 raises. The result is the exception, or for every
  position the timestamp (\<open>None\<close>: missing). \<open>strftime\<close> formats a timestamp as
  \<^verbatim>\<open>%Y-%m-%d %H:%M:%S\<close>.

  \<open>series_mul\<close> is the product of a numeric column and a number, by position, as line 125
  computes it: the float product, or on an int64 column the integer product, which wraps
  around.
\<close>

record env =
  respuesta :: "response option"
  slider_choice :: "rat option"
  now :: int
  random_sample :: "nat \<Rightarrow> rat"
  to_numeric :: "cell \<Rightarrow> rat option"
  to_datetime :: "cell list \<Rightarrow> exn + (nat \<Rightarrow> int option)"
  strftime :: "int \<Rightarrow> string"
  series_mul :: "cell list \<Rightarrow> rat \<Rightarrow> nat \<Rightarrow> cell"

datatype event =
    Requests_get string
  | St_title string
  | St_header string
  | St_write string
  | St_warning string
  | St_error string
  | St_write_head dataframe
  | St_write_describe dataframe
  | St_slider string rat rat rat
  | St_pydeck_chart dataframe
  | St_bar_chart "(rat \<times> nat) list"
  | St_line_chart "(string \<times> cell) list"
  | St_scatter_chart dataframe

text \<open>
  \<^verbatim>\<open>np.random.uniform(low, high, size)\<close> is \<open>low + (high - low) * u\<close> for \<open>size\<close>
  successive samples \<open>u\<close>; \<^verbatim>\<open>np.random.randint(low, high)\<close> is an integer from \<open>low\<close>
  (included) to \<open>high\<close> (excluded), here read off one sample.
\<close>

definition np_random_uniform :: "rat \<Rightarrow> rat \<Rightarrow> nat \<Rightarrow> (nat \<Rightarrow> rat) \<Rightarrow> nat \<Rightarrow> cell list" where
  "np_random_uniform low high n u pos =
     map (\<lambda>i. Num (low + (high - low) * u (pos + i))) [0..<n]"

definition np_random_randint :: "int \<Rightarrow> int \<Rightarrow> rat \<Rightarrow> int" where
  "np_random_randint low high u = low + \<lfloor>of_int (high - low) * u\<rfloor>"

definition timedelta_days :: "int \<Rightarrow> int" where
  "timedelta_days d = d * 86400000000"

text \<open>
  \<^verbatim>\<open>st.slider(label, min_value, max_value, value)\<close>: the widget returns \<open>value\<close> until
  the user moves it, and never a number outside \<open>[min_value, max_value]\<close>.
\<close>

definition st_slider :: "rat \<Rightarrow> rat \<Rightarrow> rat \<Rightarrow> rat option \<Rightarrow> rat" where
  "st_slider min_value max_value val choice =
     (case choice of None \<Rightarrow> val | Some v \<Rightarrow> max min_value (min max_value v))"

subsection \<open>Lines 19 to 58: fetch and clean\<close>

definition URL :: string where
  "URL = ''https://api.gael.cloud/general/public/sismos''"

definition lat_min :: rat where "lat_min = - 55"
definition lat_max :: rat where "lat_max = - 35 / 2"
definition lon_min :: rat where "lon_min = - 75"
definition lon_max :: rat where "lon_max = - 66"

definition coords_missing :: "dataframe \<Rightarrow> bool" where
  "coords_missing df \<longleftrightarrow> ''lat'' \<notin> set (columns df) \<or> ''lon'' \<notin> set (columns df)"

text \<open>Lines 32 to 44. The result carries the warning, the frame and the generator's position.\<close>

definition coordenadas :: "env \<Rightarrow> dataframe \<Rightarrow> event list \<times> dataframe \<times> nat" where
  "coordenadas e df =
     (if coords_missing df then
        (let n = shape0 df;
             df1 = setitem ''Latitud'' (np_random_uniform lat_min lat_max n (random_sample e) 0) df;
             df2 = setitem ''Longitud'' (np_random_uniform lon_min lon_max n (random_sample e) n) df1
         in ([St_warning ''No se encontraron las columnas de latitud y longitud en los datos. Creando ubicaciones aleatorias dentro de Chile.''],
             df2, 2 * n))
      else ([], rename lat_lon_labels df, 0))"

definition coerce_numeric :: "env \<Rightarrow> cell \<Rightarrow> cell" where
  "coerce_numeric e c = (case to_numeric e c of Some x \<Rightarrow> Num x | None \<Rightarrow> NaN)"

definition timestamps :: "(nat \<Rightarrow> int option) \<Rightarrow> nat \<Rightarrow> cell list" where
  "timestamps f n = map (\<lambda>i. case f i of Some t \<Rightarrow> Timestamp t | None \<Rightarrow> NaN) [0..<n]"

text \<open>Line 47: reading the column raises KeyError when the answer has no such key.\<close>

definition magnitud :: "env \<Rightarrow> dataframe \<Rightarrow> exn + dataframe" where
  "magnitud e df =
     (if ''Magnitud'' \<in> set (columns df)
      then Inr (setitem ''Magnitud'' (map (coerce_numeric e) (getitem df ''Magnitud'')) df)
      else Inl (KeyError ''Magnitud''))"

text \<open>Line 53: one timestamp per row, each from its own call of randint.\<close>

definition fechas_recientes :: "env \<Rightarrow> nat \<Rightarrow> nat \<Rightarrow> int list" where
  "fechas_recientes e pos n =
     (let start_date = now e - timedelta_days 30
      in map (\<lambda>i. start_date + timedelta_days (np_random_randint 0 30 (random_sample e (pos + i))))
           [0..<n])"

text \<open>Line 58: \<^verbatim>\<open>.dt.strftime\<close> formats a timestamp; a missing one stays missing.\<close>

fun dt_strftime :: "env \<Rightarrow> cell \<Rightarrow> cell" where
  "dt_strftime e (Timestamp t) = Str (strftime e t)"
| "dt_strftime e _ = NaN"

text \<open>Lines 50 to 58. The date stage raises where \<open>to_datetime\<close> does.\<close>

definition fecha :: "env \<Rightarrow> nat \<Rightarrow> dataframe \<Rightarrow> event list \<times> (exn + dataframe)" where
  "fecha e pos df =
     (if ''Fecha'' \<notin> set (columns df) then
        (let df1 = setitem ''Fecha'' (map Timestamp (fechas_recientes e pos (shape0 df))) df
         in ([St_warning ''No se encontro la columna de fecha. Generando fechas recientes aleatorias para los sismos.''],
             Inr (setitem ''Fecha'' (map (dt_strftime e) (getitem df1 ''Fecha'')) df1)))
      else
        (case to_datetime e (getitem df ''Fecha'') of
           Inl x \<Rightarrow> ([], Inl x)
         | Inr f \<Rightarrow>
             (let df1 = setitem ''Fecha'' (timestamps f (shape0 df)) df
              in ([], Inr (setitem ''Fecha'' (map (dt_strftime e) (getitem df1 ''Fecha'')) df1)))))"

text \<open>Lines 29 to 58: the cleaning pass, with the warnings it shows.\<close>

definition limpiar :: "env \<Rightarrow> json_object list \<Rightarrow> event list \<times> (exn + dataframe)" where
  "limpiar e datos_sismos =
     (let (w1, df1, pos) = coordenadas e (pd_DataFrame datos_sismos)
      in case magnitud e df1 of
           Inl x \<Rightarrow> (w1, Inl x)
         | Inr df2 \<Rightarrow>
             (case fecha e pos df2 of
                (w2, Inl x) \<Rightarrow> (w1 @ w2, Inl x)
              | (w2, Inr df3) \<Rightarrow> (w1 @ w2, Inr df3)))"

subsection \<open>Lines 60 to 144: statistics, filter and charts\<close>

definition magnitud_min :: "env \<Rightarrow> rat" where
  "magnitud_min e = st_slider 0 10 4 (slider_choice e)"

text \<open>Lines 70 and 73.\<close>

definition sismos_filtrados :: "rat \<Rightarrow> dataframe \<Rightarrow> dataframe" where
  "sismos_filtrados m df =
     dropna [''Latitud'', ''Longitud'']
       (select_rows (\<lambda>r. ge_cell (cell_at r ''Magnitud'') m) df)"

definition numbers :: "cell list \<Rightarrow> rat list" where
  "numbers cs = concat (map (\<lambda>c. case c of Num x \<Rightarrow> [x] | _ \<Rightarrow> []) cs)"

text \<open>Line 111: \<^verbatim>\<open>df['Magnitud'].dropna().value_counts().sort_index()\<close>.\<close>

definition magnitud_counts :: "dataframe \<Rightarrow> (rat \<times> nat) list" where
  "magnitud_counts df =
     (let ms = numbers (getitem df ''Magnitud'')
      in map (\<lambda>v. (v, count_list ms v)) (sort (remdups ms)))"

definition mean :: "rat list \<Rightarrow> cell" where
  "mean xs = (if xs = [] then NaN else Num (sum_list xs / of_nat (length xs)))"

text \<open>
  Line 117: \<^verbatim>\<open>df.groupby('Fecha')['Magnitud'].mean()\<close>: one entry per date string, in
  ascending order; rows with a missing date are left out, missing magnitudes are skipped.
\<close>

definition magnitudes_por_fecha :: "dataframe \<Rightarrow> (string \<times> cell) list" where
  "magnitudes_por_fecha df =
     (let ks = concat (map (\<lambda>c. case c of Str s \<Rightarrow> [s] | _ \<Rightarrow> []) (getitem df ''Fecha''))
      in map (\<lambda>k. (k, mean (numbers (getitem (select_rows (\<lambda>r. cell_at r ''Fecha'' = Str k) df)
                                         ''Magnitud''))))
           (sort (remdups ks)))"

text \<open>Lines 122 to 126: three columns of the table, the third multiplied by 10.\<close>

definition scatter_data :: "env \<Rightarrow> dataframe \<Rightarrow> dataframe" where
  "scatter_data e df =
     DataFrame [''Longitud'', ''Latitud'', ''Magnitud'']
       (map (\<lambda>(j, (i, r)). (i, [(''Longitud'', cell_at r ''Longitud''),
                                 (''Latitud'', cell_at r ''Latitud''),
                                 (''Magnitud'', series_mul e (getitem df ''Magnitud'') 10 j)]))
          (enumerate 0 (rows df)))"

text \<open>
  Lines 60 to 144, given the cleaned table: the calls made, the exception raised if any,
  and the value of the variable \<open>df_sismos\<close> when the script ends (line 116 sorts it in
  place). The summary table of line 66 is recorded with the frame it is computed from, its
  numbers are not computed.

  Line 62 hands the first rows to \<^verbatim>\<open>st.write\<close>, which refuses a frame with two columns
  of one label: the run ends there with ValueError, after the text of line 61, and the
  table stays as cleaned.
\<close>

definition mostrar :: "env \<Rightarrow> dataframe \<Rightarrow> event list \<times> exn option \<times> dataframe" where
  "mostrar e df_sismos =
     (if \<not> distinct (columns df_sismos) then
        ([St_write ''Ultimos sismos registrados:''], Some ValueError, df_sismos)
      else
        (let m = magnitud_min e;
             filtrados = sismos_filtrados m df_sismos;
             bars = magnitud_counts df_sismos;
             sorted_df = sort_values ''Fecha'' df_sismos
         in ([St_write ''Ultimos sismos registrados:'',
              St_write_head (head df_sismos),
              St_header ''Estadisticas Generales'',
              St_write_describe df_sismos,
              St_slider ''Selecciona una magnitud minima para visualizar los sismos'' 0 10 4,
              St_header ''Visualizacion en 3D de Sismos'',
              St_pydeck_chart filtrados,
              St_header ''Distribucion de Frecuencia por Magnitud'',
              St_bar_chart bars,
              St_header ''Magnitud de Sismos a lo Largo del Tiempo'',
              St_line_chart (magnitudes_por_fecha sorted_df),
              St_header ''Ubicaciones de Sismos con Magnitud'',
              St_scatter_chart (scatter_data e sorted_df),
              St_header ''Analisis de las Graficas'',
              St_write ''analisis'',
              St_header ''Conclusiones'',
              St_write ''conclusiones''],
             None, sorted_df)))"

subsection \<open>The whole script\<close>

text \<open>
  A run: the calls it made, the exception that ended it (if one did), and the table
  \<open>df_sismos\<close> as it stands at exit (\<open>None\<close>: the cleaning of lines 29 to 58 did not
  complete).
\<close>

record run =
  trace :: "event list"
  raised :: "exn option"
  df_final :: "dataframe option"

definition preamble :: "event list" where
  "preamble =
     [St_title ''Aplicacion Sismos :D'',
      St_header ''Descripcion de los datos'',
      St_write ''descripcion'',
      Requests_get URL]"

definition script :: "env \<Rightarrow> run" where
  "script e =
     (case respuesta e of
        None \<Rightarrow> \<lparr>trace = preamble, raised = Some RequestException, df_final = None\<rparr>
      | Some r \<Rightarrow>
          if status_code r = 200 then
            (let t1 = preamble @ [St_write ''Conexion exitosa con la API.'']
             in case json r of
                  None \<Rightarrow> \<lparr>trace = t1, raised = Some JSONDecodeError, df_final = None\<rparr>
                | Some datos_sismos \<Rightarrow>
                    (case limpiar e datos_sismos of
                       (w, Inl x) \<Rightarrow> \<lparr>trace = t1 @ w, raised = Some x, df_final = None\<rparr>
                     | (w, Inr df) \<Rightarrow>
                         (let (evs, x, df') = mostrar e df
                          in \<lparr>trace = t1 @ w @ evs, raised = x, df_final = Some df'\<rparr>)))
          else \<lparr>trace = preamble @ [St_error ''Error al conectar con la API.''],
                 raised = None, df_final = None\<rparr>)"

subsection \<open>Reading a trace and a frame\<close>

text \<open>
  Events by kind.
\<close>

fun is_get :: "event \<Rightarrow> bool" where
  "is_get (Requests_get u) = True"
| "is_get _ = False"

fun is_error :: "event \<Rightarrow> bool" where
  "is_error (St_error m) = True"
| "is_error _ = False"

fun is_warning :: "event \<Rightarrow> bool" where
  "is_warning (St_warning m) = True"
| "is_warning _ = False"

fun is_chart :: "event \<Rightarrow> bool" where
  "is_chart (St_pydeck_chart d) = True"
| "is_chart (St_bar_chart b) = True"
| "is_chart (St_line_chart l) = True"
| "is_chart (St_scatter_chart d) = True"
| "is_chart _ = False"

text \<open>
  The cell under a label, and the index label, of the row at position \<open>i\<close> of a frame.
\<close>

definition celda :: "dataframe \<Rightarrow> nat \<Rightarrow> string \<Rightarrow> cell" where
  "celda df i c = cell_at (snd (rows df ! i)) c"

definition etiqueta :: "dataframe \<Rightarrow> nat \<Rightarrow> nat" where
  "etiqueta df i = fst (rows df ! i)"

text \<open>
  The position of the generator when line 53 starts drawing: lines 40 and 41 have
  taken \<open>2 n\<close> samples when they ran.
\<close>

definition pos_fecha :: "json_object list \<Rightarrow> nat" where
  "pos_fecha ds = (if coords_missing (pd_DataFrame ds) then 2 * length ds else 0)"

text \<open>
  A frame is well formed when its labels are distinct and every row has exactly one cell
  per label. The frame built from the answer is, and every assignment keeps it so; the
  renaming of line 44 does not when the answer has \<open>lat\<close> and \<open>lon\<close> and already a
  \<open>Latitud\<close> or \<open>Longitud\<close> key: \<open>label_clash\<close> says so of the frame built from the
  answer.
\<close>

text \<open>
  A column of the answer as line 29 builds it, and the condition under which the date stage
  of lines 50 to 58 does not raise: the answer has no date column, or \<open>to_datetime\<close>
  accepts the one it has.
\<close>

definition columna :: "json_object list \<Rightarrow> string \<Rightarrow> cell list" where
  "columna ds c = map (\<lambda>r. cell_at r c) ds"

definition fechas_ok :: "env \<Rightarrow> json_object list \<Rightarrow> bool" where
  "fechas_ok e ds \<longleftrightarrow>
     ''Fecha'' \<notin> set (columns (pd_DataFrame ds)) \<or> \<not> isl (to_datetime e (columna ds ''Fecha''))"

definition wf_frame :: "dataframe \<Rightarrow> bool" where
  "wf_frame df \<longleftrightarrow> distinct (columns df) \<and> list_all (\<lambda>p. map fst (snd p) = columns df) (rows df)"

definition label_clash :: "dataframe \<Rightarrow> bool" where
  "label_clash df \<longleftrightarrow>
     \<not> coords_missing df \<and> (''Latitud'' \<in> set (columns df) \<or> ''Longitud'' \<in> set (columns df))"

subsection \<open>Example inputs\<close>

text \<open>
  A small outside world to run the script in: the clock at 2024-11-03 12:00:00 (in
  microseconds since 1970), the samples \<open>1/2, 1/3, 1/4, ...\<close>, and a parser and a formatter
  that know the few magnitudes and dates the examples reach. Its \<open>to_datetime\<close> raises on a
  column that holds the two dates with different UTC offsets; its \<open>series_mul\<close> is the
  float product.
\<close>

definition env_ejemplo :: "response option \<Rightarrow> rat option \<Rightarrow> env" where
  "env_ejemplo resp choice =
     \<lparr>respuesta = resp, slider_choice = choice, now = 1730635200000000,
      random_sample = (\<lambda>i. 1 / of_nat (i + 2)),
      to_numeric = (\<lambda>c. case c of
                       Num x \<Rightarrow> Some x
                     | Str s \<Rightarrow> (if s = ''5.1'' then Some (51 / 10)
                                else if s = ''3.2'' then Some (16 / 5) else None)
                     | _ \<Rightarrow> None),
      to_datetime = (\<lambda>cs. if Str ''2024-11-02 10:00:00+00:00'' \<in> set cs \<and>
                               Str ''2024-11-01 08:30:00-03:00'' \<in> set cs
                            then Inl ValueError
                            else Inr (\<lambda>i. if i < length cs then
                                             (if cs ! i = Str ''2024-11-02 10:00:00''
                                              then Some 1730541600000000
                                              else if cs ! i = Str ''2024-11-01 08:30:00''
                                              then Some 1730449800000000
                                              else None)
                                           else None)),
      strftime = (\<lambda>t. if t = 1730541600000000 then ''2024-11-02 10:00:00''
                       else if t = 1730449800000000 then ''2024-11-01 08:30:00''
                       else if t = 1729339200000000 then ''2024-10-19 12:00:00''
                       else if t = 1728907200000000 then ''2024-10-14 12:00:00''
                       else ''?''),
      series_mul = (\<lambda>cs k i. case cs ! i of Num x \<Rightarrow> Num (x * k) | _ \<Rightarrow> NaN)\<rparr>"

text \<open>
  Answers: one with the keys of the public API (no coordinates), one without dates, one
  with \<open>lat\<close> only, one with both coordinates where the third record has no
  \<open>lat\<close> and a date that does not parse, and the fourth a magnitude that does not parse,
  one with \<open>lat\<close>, \<open>lon\<close> and a \<open>Latitud\<close> key of its own, and one whose dates have
  different UTC offsets.
\<close>

definition datos_api :: "json_object list" where
  "datos_api =
     [[(''Fecha'', Str ''2024-11-02 10:00:00''), (''Magnitud'', Str ''5.1''), (''RefGeografica'', Str ''A'')],
      [(''Fecha'', Str ''2024-11-01 08:30:00''), (''Magnitud'', Str ''3.2''), (''RefGeografica'', Str ''B'')],
      [(''Fecha'', Str ''sin fecha''), (''Magnitud'', Str ''n/a''), (''RefGeografica'', Str ''C'')]]"

definition datos_sin_fecha :: "json_object list" where
  "datos_sin_fecha =
     [[(''Magnitud'', Str ''5.1''), (''lat'', Num (- 33)), (''lon'', Num (- 70))],
      [(''Magnitud'', Str ''3.2''), (''lat'', Num (- 20)), (''lon'', Num (- 69))]]"

definition datos_solo_lat :: "json_object list" where
  "datos_solo_lat =
     [[(''Magnitud'', Str ''5.1''), (''Fecha'', Str ''2024-11-01 08:30:00''), (''lat'', Num (- 33))],
      [(''Magnitud'', Str ''3.2''), (''Fecha'', Str ''2024-11-02 10:00:00''), (''lat'', Num (- 20))]]"

definition datos_con_coords :: "json_object list" where
  "datos_con_coords =
     [[(''Magnitud'', Str ''5.1''), (''Fecha'', Str ''2024-11-02 10:00:00''), (''lat'', Num (- 33)), (''lon'', Num (- 70))],
      [(''Magnitud'', Str ''3.2''), (''Fecha'', Str ''2024-11-01 08:30:00''), (''lat'', Num (- 20)), (''lon'', Num (- 69))],
      [(''Magnitud'', Num 6), (''Fecha'', Str ''sin fecha''), (''lon'', Num (- 71))],
      [(''Magnitud'', Str ''n/a''), (''Fecha'', Str ''2024-11-01 08:30:00''), (''lat'', Num (- 30)), (''lon'', Num (- 71))]]"

text \<open>
  The last answer after cleaning, a run on it with the slider untouched, and one with the
  slider at 5.1.
\<close>

definition datos_choque :: "json_object list" where
  "datos_choque =
     [[(''Magnitud'', Str ''5.1''), (''Fecha'', Str ''2024-11-02 10:00:00''),
       (''lat'', Num (- 33)), (''lon'', Num (- 70)), (''Latitud'', Str ''33 S'')]]"

definition datos_husos :: "json_object list" where
  "datos_husos =
     [[(''Magnitud'', Str ''5.1''), (''Fecha'', Str ''2024-11-02 10:00:00+00:00'')],
      [(''Magnitud'', Str ''3.2''), (''Fecha'', Str ''2024-11-01 08:30:00-03:00'')]]"

definition tabla_limpia :: dataframe where
  "tabla_limpia =
     DataFrame [''Magnitud'', ''Fecha'', ''Latitud'', ''Longitud'']
       [(0, [(''Magnitud'', Num (51 / 10)), (''Fecha'', Str ''2024-11-02 10:00:00''),
             (''Latitud'', Num (- 33)), (''Longitud'', Num (- 70))]),
        (1, [(''Magnitud'', Num (16 / 5)), (''Fecha'', Str ''2024-11-01 08:30:00''),
             (''Latitud'', Num (- 20)), (''Longitud'', Num (- 69))]),
        (2, [(''Magnitud'', Num 6), (''Fecha'', NaN), (''Latitud'', NaN),
             (''Longitud'', Num (- 71))]),
        (3, [(''Magnitud'', NaN), (''Fecha'', Str ''2024-11-01 08:30:00''),
             (''Latitud'', Num (- 30)), (''Longitud'', Num (- 71))])]"

definition env_con_coords :: env where
  "env_con_coords = env_ejemplo (Some (Response 200 (Some datos_con_coords))) None"

definition env_umbral :: env where
  "env_umbral = env_ejemplo (Some (Response 200 (Some datos_con_coords))) (Some (51 / 10))"

section \<open>Facts about the frame operations and the stages\<close>

subsection \<open>Frame operations\<close>

lemma cell_at_update: "cell_at (AList.update c v r) c' = (if c' = c then v else cell_at r c')"
  by (simp add: cell_at_def update_conv')

lemma length_rows_setitem:
  "length vs = length (rows df) \<Longrightarrow> length (rows (setitem c vs df)) = length (rows df)"
  by (simp add: setitem_def)

lemma nth_rows_setitem:
  "i < length (rows df) \<Longrightarrow> length vs = length (rows df) \<Longrightarrow>
   rows (setitem c vs df) ! i = (fst (rows df ! i), AList.update c (vs ! i) (snd (rows df ! i)))"
  by (simp add: setitem_def split: prod.splits)

lemma columns_setitem: "set (columns (setitem c vs df)) = insert c (set (columns df))"
  by (auto simp: setitem_def)

lemma length_getitem: "length (getitem df c) = length (rows df)"
  by (simp add: getitem_def)

lemma nth_getitem: "i < length (rows df) \<Longrightarrow> getitem df c ! i = cell_at (snd (rows df ! i)) c"
  by (simp add: getitem_def split: prod.splits)

lemma length_rows_rename: "length (rows (rename f df)) = length (rows df)"
  by (simp add: rename_def)

lemma nth_rows_rename:
  "i < length (rows df) \<Longrightarrow>
   rows (rename f df) ! i = (fst (rows df ! i), map (\<lambda>(k, v). (f k, v)) (snd (rows df ! i)))"
  by (simp add: rename_def split: prod.splits)

lemma columns_rename: "columns (rename f df) = map f (columns df)"
  by (simp add: rename_def)

lemma cell_at_normalised: "cell_at (map (\<lambda>c. (c, cell_at r c)) cols) c = (if c \<in> set cols then cell_at r c else NaN)"
  by (induction cols) (auto simp: cell_at_def)

lemma set_columns_pd_DataFrame: "set (columns (pd_DataFrame ds)) = (\<Union>r\<in>set ds. fst ` set r)"
  by (auto simp: pd_DataFrame_def Let_def)

lemma cell_at_absent: "c \<notin> fst ` set r \<Longrightarrow> cell_at r c = NaN"
  by (cases "map_of r c") (auto simp: cell_at_def dest!: map_of_SomeD intro: rev_image_eqI)

lemma length_rows_pd_DataFrame: "length (rows (pd_DataFrame ds)) = length ds"
  by (simp add: pd_DataFrame_def Let_def)

lemma nth_rows_pd_DataFrame:
  "i < length ds \<Longrightarrow> fst (rows (pd_DataFrame ds) ! i) = i \<and>
     cell_at (snd (rows (pd_DataFrame ds) ! i)) c = cell_at (ds ! i) c"
  apply (simp add: pd_DataFrame_def Let_def nth_enumerate_eq cell_at_normalised)
  apply (auto intro!: cell_at_absent[symmetric])
  done

subsection \<open>What a run shows\<close>

lemma coordenadas_warnings: "list_all is_warning (fst (coordenadas e df))"
  by (simp add: coordenadas_def Let_def)

lemma fecha_warnings: "list_all is_warning (fst (fecha e pos df))"
  by (simp add: fecha_def Let_def split: sum.splits)

lemma limpiar_warnings: "list_all is_warning (fst (limpiar e ds))"
proof -
  obtain w1 df1 pos where c: "coordenadas e (pd_DataFrame ds) = (w1, df1, pos)"
    by (cases "coordenadas e (pd_DataFrame ds)")
  have w1: "list_all is_warning w1"
    using coordenadas_warnings[of e "pd_DataFrame ds"] c by simp
  show ?thesis
  proof (cases "magnitud e df1")
    case (Inl x)
    with c w1 show ?thesis by (simp add: limpiar_def)
  next
    case (Inr df2)
    obtain w2 res where f: "fecha e pos df2 = (w2, res)" by (cases "fecha e pos df2")
    have "list_all is_warning w2" using fecha_warnings[of e pos df2] f by simp
    with c w1 Inr f show ?thesis by (cases res) (simp_all add: limpiar_def)
  qed
qed

lemma warnings_no_get: "list_all is_warning w \<Longrightarrow> filter is_get w = []"
  by (induction w) (auto elim: is_warning.elims)

lemma warnings_no_error: "list_all is_warning w \<Longrightarrow> filter is_error w = []"
  by (induction w) (auto elim: is_warning.elims)

lemma mostrar_no_get: "filter is_get (fst (mostrar e df)) = []"
  by (simp add: mostrar_def Let_def)

lemma mostrar_no_error: "filter is_error (fst (mostrar e df)) = []"
  by (simp add: mostrar_def Let_def)

lemma script_ok:
  assumes "respuesta e = Some r" "status_code r = 200" "json r = Some ds"
      and "limpiar e ds = (w, Inr df)"
  shows "script e = \<lparr>trace = preamble @ [St_write ''Conexion exitosa con la API.''] @ w @ fst (mostrar e df),
                     raised = fst (snd (mostrar e df)),
                     df_final = Some (snd (snd (mostrar e df)))\<rparr>"
  using assms by (simp add: script_def split: prod.splits)

subsection \<open>Cells and labels by position\<close>

lemma celda_setitem:
  "i < length (rows df) \<Longrightarrow> length vs = length (rows df) \<Longrightarrow>
   celda (setitem c vs df) i c' = (if c' = c then vs ! i else celda df i c')"
  by (simp add: celda_def nth_rows_setitem cell_at_update)

lemma etiqueta_setitem:
  "i < length (rows df) \<Longrightarrow> length vs = length (rows df) \<Longrightarrow>
   etiqueta (setitem c vs df) i = etiqueta df i"
  by (simp add: etiqueta_def nth_rows_setitem)

lemma celda_pd_DataFrame: "i < length ds \<Longrightarrow> celda (pd_DataFrame ds) i c = cell_at (ds ! i) c"
  by (simp add: celda_def nth_rows_pd_DataFrame)

lemma etiqueta_pd_DataFrame: "i < length ds \<Longrightarrow> etiqueta (pd_DataFrame ds) i = i"
  by (simp add: etiqueta_def nth_rows_pd_DataFrame)

lemma getitem_celda: "i < length (rows df) \<Longrightarrow> getitem df c ! i = celda df i c"
  by (simp add: celda_def nth_getitem)

lemma cell_at_relabel_other:
  "c \<noteq> ''lat'' \<Longrightarrow> c \<noteq> ''lon'' \<Longrightarrow> c \<noteq> ''Latitud'' \<Longrightarrow> c \<noteq> ''Longitud'' \<Longrightarrow>
   cell_at (map (\<lambda>(k, v). (lat_lon_labels k, v)) r) c = cell_at r c"
  by (induction r) (auto simp: cell_at_def lat_lon_labels_def)

lemma cell_at_relabel_lat:
  "''Latitud'' \<notin> fst ` set r \<Longrightarrow>
   cell_at (map (\<lambda>(k, v). (lat_lon_labels k, v)) r) ''Latitud'' = cell_at r ''lat''"
  by (induction r) (auto simp: cell_at_def lat_lon_labels_def split: if_splits)

lemma cell_at_relabel_lon:
  "''Longitud'' \<notin> fst ` set r \<Longrightarrow>
   cell_at (map (\<lambda>(k, v). (lat_lon_labels k, v)) r) ''Longitud'' = cell_at r ''lon''"
  by (induction r) (auto simp: cell_at_def lat_lon_labels_def split: if_splits)

lemma relabel_mem:
  "c \<noteq> ''lat'' \<Longrightarrow> c \<noteq> ''lon'' \<Longrightarrow> c \<noteq> ''Latitud'' \<Longrightarrow> c \<noteq> ''Longitud'' \<Longrightarrow>
   c \<in> lat_lon_labels ` A \<longleftrightarrow> c \<in> A"
  by (auto simp: lat_lon_labels_def split: if_splits)

lemma celda_rename_other:
  "i < length (rows df) \<Longrightarrow>
   c \<noteq> ''lat'' \<Longrightarrow> c \<noteq> ''lon'' \<Longrightarrow> c \<noteq> ''Latitud'' \<Longrightarrow> c \<noteq> ''Longitud'' \<Longrightarrow>
   celda (rename lat_lon_labels df) i c = celda df i c"
  by (simp add: celda_def nth_rows_rename cell_at_relabel_other)

lemma etiqueta_rename: "i < length (rows df) \<Longrightarrow> etiqueta (rename f df) i = etiqueta df i"
  by (simp add: etiqueta_def nth_rows_rename)

subsection \<open>The stages of cleaning\<close>

text \<open>Lines 32 to 44.\<close>

lemma coordenadas_missing_eq:
  "coords_missing df \<Longrightarrow>
   coordenadas e df =
     ([St_warning ''No se encontraron las columnas de latitud y longitud en los datos. Creando ubicaciones aleatorias dentro de Chile.''],
      setitem ''Longitud'' (np_random_uniform lon_min lon_max (length (rows df)) (random_sample e) (length (rows df)))
        (setitem ''Latitud'' (np_random_uniform lat_min lat_max (length (rows df)) (random_sample e) 0) df),
      2 * length (rows df))"
  by (simp add: coordenadas_def Let_def shape0_def)

lemma coordenadas_present_eq:
  "\<not> coords_missing df \<Longrightarrow> coordenadas e df = ([], rename lat_lon_labels df, 0)"
  by (simp add: coordenadas_def)

lemma length_np_random_uniform: "length (np_random_uniform lo hi n u pos) = n"
  by (simp add: np_random_uniform_def)

lemma nth_np_random_uniform:
  "i < n \<Longrightarrow> np_random_uniform lo hi n u pos ! i = Num (lo + (hi - lo) * u (pos + i))"
  by (simp add: np_random_uniform_def)

lemma coordenadas_length:
  "coordenadas e df = (w, df1, pos) \<Longrightarrow> length (rows df1) = length (rows df)"
  by (cases "coords_missing df")
     (auto simp: coordenadas_missing_eq coordenadas_present_eq length_rows_setitem
       length_np_random_uniform length_rows_rename)

lemma coordenadas_etiqueta:
  "coordenadas e df = (w, df1, pos) \<Longrightarrow> i < length (rows df) \<Longrightarrow> etiqueta df1 i = etiqueta df i"
  by (cases "coords_missing df")
     (auto simp: coordenadas_missing_eq coordenadas_present_eq length_rows_setitem
       length_np_random_uniform etiqueta_setitem etiqueta_rename)

lemma coordenadas_other:
  assumes "coordenadas e df = (w, df1, pos)" "i < length (rows df)"
      and "c \<noteq> ''lat''" "c \<noteq> ''lon''" "c \<noteq> ''Latitud''" "c \<noteq> ''Longitud''"
  shows "celda df1 i c = celda df i c"
  using assms
  by (cases "coords_missing df")
     (auto simp: coordenadas_missing_eq coordenadas_present_eq length_rows_setitem
       length_np_random_uniform celda_setitem celda_rename_other)

lemma coordenadas_columns:
  assumes "coordenadas e df = (w, df1, pos)"
      and "c \<noteq> ''lat''" "c \<noteq> ''lon''" "c \<noteq> ''Latitud''" "c \<noteq> ''Longitud''"
  shows "c \<in> set (columns df1) \<longleftrightarrow> c \<in> set (columns df)"
  using assms
  by (cases "coords_missing df")
     (auto simp: coordenadas_missing_eq coordenadas_present_eq columns_setitem columns_rename
       relabel_mem)

lemma coordenadas_missing:
  assumes "coordenadas e df = (w, df1, pos)" "coords_missing df" "i < length (rows df)"
  shows "celda df1 i ''Latitud'' = Num (lat_min + (lat_max - lat_min) * random_sample e i)"
    and "celda df1 i ''Longitud'' = Num (lon_min + (lon_max - lon_min) * random_sample e (length (rows df) + i))"
  using assms
  by (auto simp: coordenadas_missing_eq length_rows_setitem length_np_random_uniform
      celda_setitem nth_np_random_uniform)

text \<open>Line 47.\<close>

lemma magnitud_Inr:
  assumes "magnitud e df1 = Inr df2"
  shows "length (rows df2) = length (rows df1)"
    and "set (columns df2) = set (columns df1)"
    and "''Magnitud'' \<in> set (columns df1)"
    and "i < length (rows df1) \<Longrightarrow> etiqueta df2 i = etiqueta df1 i"
    and "i < length (rows df1) \<Longrightarrow>
         celda df2 i c = (if c = ''Magnitud'' then coerce_numeric e (celda df1 i ''Magnitud'')
                          else celda df1 i c)"
  using assms
  by (auto simp: magnitud_def length_rows_setitem length_getitem columns_setitem
      etiqueta_setitem celda_setitem getitem_celda split: if_splits)

text \<open>Lines 50 to 58.\<close>

lemma length_fechas_recientes: "length (fechas_recientes e pos n) = n"
  by (simp add: fechas_recientes_def Let_def)

lemma length_timestamps: "length (timestamps f n) = n"
  by (simp add: timestamps_def)

lemma nth_timestamps:
  "i < n \<Longrightarrow> timestamps f n ! i = (case f i of Some t \<Rightarrow> Timestamp t | None \<Rightarrow> NaN)"
  by (simp add: timestamps_def)

lemma fecha_absent_eq:
  "''Fecha'' \<notin> set (columns df) \<Longrightarrow>
   fecha e pos df =
     ([St_warning ''No se encontro la columna de fecha. Generando fechas recientes aleatorias para los sismos.''],
      Inr (setitem ''Fecha''
             (map (dt_strftime e)
                (getitem (setitem ''Fecha'' (map Timestamp (fechas_recientes e pos (length (rows df)))) df)
                   ''Fecha''))
             (setitem ''Fecha'' (map Timestamp (fechas_recientes e pos (length (rows df)))) df)))"
  by (simp add: fecha_def Let_def shape0_def)

lemma fecha_present_eq:
  "''Fecha'' \<in> set (columns df) \<Longrightarrow> to_datetime e (getitem df ''Fecha'') = Inr f \<Longrightarrow>
   fecha e pos df =
     ([], Inr (setitem ''Fecha''
                 (map (dt_strftime e)
                    (getitem (setitem ''Fecha'' (timestamps f (length (rows df))) df) ''Fecha''))
                 (setitem ''Fecha'' (timestamps f (length (rows df))) df)))"
  by (simp add: fecha_def Let_def shape0_def)

lemma fecha_raises_eq:
  "''Fecha'' \<in> set (columns df) \<Longrightarrow> to_datetime e (getitem df ''Fecha'') = Inl x \<Longrightarrow>
   fecha e pos df = ([], Inl x)"
  by (simp add: fecha_def)

lemma fecha_Inr_cases:
  assumes "fecha e pos df2 = (w, Inr df3)"
  obtains (absent) "''Fecha'' \<notin> set (columns df2)"
    | (present) f where "''Fecha'' \<in> set (columns df2)" "to_datetime e (getitem df2 ''Fecha'') = Inr f"
proof (cases "''Fecha'' \<in> set (columns df2)")
  case False
  then show ?thesis by (rule absent)
next
  case True
  show ?thesis
  proof (cases "to_datetime e (getitem df2 ''Fecha'')")
    case (Inl x)
    with True assms show ?thesis by (simp add: fecha_raises_eq)
  next
    case (Inr f)
    with True show ?thesis by (rule present)
  qed
qed

lemma fecha_stage:
  assumes "fecha e pos df2 = (w, Inr df3)"
  shows "length (rows df3) = length (rows df2)"
    and "set (columns df3) = insert ''Fecha'' (set (columns df2))"
    and "i < length (rows df2) \<Longrightarrow> etiqueta df3 i = etiqueta df2 i"
    and "i < length (rows df2) \<Longrightarrow> c \<noteq> ''Fecha'' \<Longrightarrow> celda df3 i c = celda df2 i c"
    and "i < length (rows df2) \<Longrightarrow>
         celda df3 i ''Fecha'' =
           (if ''Fecha'' \<in> set (columns df2)
            then (case to_datetime e (getitem df2 ''Fecha'') of
                    Inr f \<Rightarrow> (case f i of Some t \<Rightarrow> Str (strftime e t) | None \<Rightarrow> NaN)
                  | Inl x \<Rightarrow> NaN)
            else Str (strftime e (fechas_recientes e pos (length (rows df2)) ! i)))"
proof -
  let ?P = "length (rows df3) = length (rows df2) \<and>
    set (columns df3) = insert ''Fecha'' (set (columns df2)) \<and>
    (i < length (rows df2) \<longrightarrow> etiqueta df3 i = etiqueta df2 i) \<and>
    (i < length (rows df2) \<longrightarrow> c \<noteq> ''Fecha'' \<longrightarrow> celda df3 i c = celda df2 i c) \<and>
    (i < length (rows df2) \<longrightarrow>
     celda df3 i ''Fecha'' =
     (if ''Fecha'' \<in> set (columns df2)
      then (case to_datetime e (getitem df2 ''Fecha'') of
              Inr f \<Rightarrow> (case f i of Some t \<Rightarrow> Str (strftime e t) | None \<Rightarrow> NaN)
            | Inl x \<Rightarrow> NaN)
      else Str (strftime e (fechas_recientes e pos (length (rows df2)) ! i))))"
  have ?P
  proof (rule fecha_Inr_cases[OF assms])
    assume ab: "''Fecha'' \<notin> set (columns df2)"
    with assms have d: "df3 = setitem ''Fecha''
             (map (dt_strftime e)
                (getitem (setitem ''Fecha'' (map Timestamp (fechas_recientes e pos (length (rows df2)))) df2)
                   ''Fecha''))
             (setitem ''Fecha'' (map Timestamp (fechas_recientes e pos (length (rows df2)))) df2)"
      by (simp add: fecha_absent_eq)
    show ?P
      unfolding d using ab
      by (auto simp: length_rows_setitem length_getitem columns_setitem
          etiqueta_setitem celda_setitem getitem_celda length_fechas_recientes)
  next
    fix f
    assume pr: "''Fecha'' \<in> set (columns df2)" and td: "to_datetime e (getitem df2 ''Fecha'') = Inr f"
    with assms have d: "df3 = setitem ''Fecha''
                 (map (dt_strftime e)
                    (getitem (setitem ''Fecha'' (timestamps f (length (rows df2))) df2) ''Fecha''))
                 (setitem ''Fecha'' (timestamps f (length (rows df2))) df2)"
      by (simp add: fecha_present_eq)
    show ?P
      unfolding d using pr td
      by (auto simp: length_rows_setitem length_getitem columns_setitem
          etiqueta_setitem celda_setitem getitem_celda length_timestamps nth_timestamps
          split: option.splits)
  qed
  then show "length (rows df3) = length (rows df2)"
    and "set (columns df3) = insert ''Fecha'' (set (columns df2))"
    and "i < length (rows df2) \<Longrightarrow> etiqueta df3 i = etiqueta df2 i"
    and "i < length (rows df2) \<Longrightarrow> c \<noteq> ''Fecha'' \<Longrightarrow> celda df3 i c = celda df2 i c"
    and "i < length (rows df2) \<Longrightarrow>
         celda df3 i ''Fecha'' =
           (if ''Fecha'' \<in> set (columns df2)
            then (case to_datetime e (getitem df2 ''Fecha'') of
                    Inr f \<Rightarrow> (case f i of Some t \<Rightarrow> Str (strftime e t) | None \<Rightarrow> NaN)
                  | Inl x \<Rightarrow> NaN)
            else Str (strftime e (fechas_recientes e pos (length (rows df2)) ! i)))"
    by blast+
qed

subsection \<open>The cleaning pass as a whole\<close>

lemma limpiar_Inr:
  assumes "limpiar e ds = (w, Inr df)"
  obtains w1 df1 pos df2 w2 where
    "coordenadas e (pd_DataFrame ds) = (w1, df1, pos)"
    "magnitud e df1 = Inr df2"
    "fecha e pos df2 = (w2, Inr df)"
    "w = w1 @ w2"
  using assms by (auto simp: limpiar_def split: prod.splits sum.splits)

lemma stage_getitem:
  assumes c: "coordenadas e (pd_DataFrame ds) = (w1, df1, pos)"
      and m: "magnitud e df1 = Inr df2"
      and k: "k \<noteq> ''lat''" "k \<noteq> ''lon''" "k \<noteq> ''Latitud''" "k \<noteq> ''Longitud''" "k \<noteq> ''Magnitud''"
  shows "getitem df2 k = columna ds k"
proof (rule nth_equalityI)
  have n0: "length (rows (pd_DataFrame ds)) = length ds"
    by (rule length_rows_pd_DataFrame)
  have n1: "length (rows df1) = length ds"
    using coordenadas_length[OF c] n0 by simp
  have n2: "length (rows df2) = length ds"
    using magnitud_Inr(1)[OF m] n1 by simp
  show "length (getitem df2 k) = length (columna ds k)"
    using n2 by (simp add: length_getitem columna_def)
  fix i assume "i < length (getitem df2 k)"
  then have i: "i < length ds" using n2 by (simp add: length_getitem)
  have "celda df2 i k = cell_at (ds ! i) k"
    using magnitud_Inr(5)[OF m, of i k] coordenadas_other[OF c, of i k] k
      i n0 n1 celda_pd_DataFrame[OF i] by simp
  then show "getitem df2 k ! i = columna ds k ! i"
    using i n2 by (simp add: getitem_celda columna_def)
qed

lemma limpiar_returns:
  assumes "''Magnitud'' \<in> set (columns (pd_DataFrame ds))" and fo: "fechas_ok e ds"
  shows "\<exists>w df. limpiar e ds = (w, Inr df)"
proof -
  obtain w1 df1 pos where c: "coordenadas e (pd_DataFrame ds) = (w1, df1, pos)"
    by (cases "coordenadas e (pd_DataFrame ds)")
  have "''Magnitud'' \<in> set (columns df1)"
    using coordenadas_columns[OF c, of "''Magnitud''"] assms by simp
  then obtain df2 where m: "magnitud e df1 = Inr df2"
    by (simp add: magnitud_def)
  have fcol: "''Fecha'' \<in> set (columns df2) \<longleftrightarrow> ''Fecha'' \<in> set (columns (pd_DataFrame ds))"
    using magnitud_Inr(2)[OF m] coordenadas_columns[OF c, of "''Fecha''"] by simp
  have g: "getitem df2 ''Fecha'' = columna ds ''Fecha''"
    by (rule stage_getitem[OF c m]) simp_all
  have "\<exists>w2 df3. fecha e pos df2 = (w2, Inr df3)"
  proof (cases "''Fecha'' \<in> set (columns df2)")
    case False
    then show ?thesis by (simp add: fecha_absent_eq)
  next
    case True
    with fo fcol g obtain f where "to_datetime e (getitem df2 ''Fecha'') = Inr f"
      by (cases "to_datetime e (columna ds ''Fecha'')") (auto simp: fechas_ok_def)
    with True show ?thesis by (simp add: fecha_present_eq)
  qed
  then obtain w2 df3 where f: "fecha e pos df2 = (w2, Inr df3)" by blast
  show ?thesis using c m f by (simp add: limpiar_def)
qed

lemma limpiar_fecha_raises:
  assumes "''Magnitud'' \<in> set (columns (pd_DataFrame ds))"
      and fc: "''Fecha'' \<in> set (columns (pd_DataFrame ds))"
      and td: "to_datetime e (columna ds ''Fecha'') = Inl x"
  shows "snd (limpiar e ds) = Inl x"
proof -
  obtain w1 df1 pos where c: "coordenadas e (pd_DataFrame ds) = (w1, df1, pos)"
    by (cases "coordenadas e (pd_DataFrame ds)")
  have "''Magnitud'' \<in> set (columns df1)"
    using coordenadas_columns[OF c, of "''Magnitud''"] assms by simp
  then obtain df2 where m: "magnitud e df1 = Inr df2"
    by (simp add: magnitud_def)
  have fcol: "''Fecha'' \<in> set (columns df2)"
    using magnitud_Inr(2)[OF m] coordenadas_columns[OF c, of "''Fecha''"] fc by simp
  have g: "getitem df2 ''Fecha'' = columna ds ''Fecha''"
    by (rule stage_getitem[OF c m]) simp_all
  have "fecha e pos df2 = ([], Inl x)"
    using fcol g td by (simp add: fecha_raises_eq)
  then show ?thesis using c m by (simp add: limpiar_def)
qed

lemma limpiar_raises:
  assumes "''Magnitud'' \<notin> set (columns (pd_DataFrame ds))"
  shows "snd (limpiar e ds) = Inl (KeyError ''Magnitud'')"
proof -
  obtain w1 df1 pos where c: "coordenadas e (pd_DataFrame ds) = (w1, df1, pos)"
    by (cases "coordenadas e (pd_DataFrame ds)")
  have "''Magnitud'' \<notin> set (columns df1)"
    using coordenadas_columns[OF c, of "''Magnitud''"] assms by simp
  then have m: "magnitud e df1 = Inl (KeyError ''Magnitud'')"
    by (simp add: magnitud_def)
  show ?thesis using c m by (simp add: limpiar_def)
qed

lemma limpiar_length:
  assumes l: "limpiar e ds = (w, Inr df)"
  shows "length (rows df) = length ds"
proof -
  from l obtain w1 df1 pos df2 w2 where
    c: "coordenadas e (pd_DataFrame ds) = (w1, df1, pos)" and
    m: "magnitud e df1 = Inr df2" and
    f: "fecha e pos df2 = (w2, Inr df)"
    by (rule limpiar_Inr)
  show ?thesis
    using fecha_stage(1)[OF f] magnitud_Inr(1)[OF m] coordenadas_length[OF c]
      length_rows_pd_DataFrame[of ds] by simp
qed

lemma limpiar_celdas:
  assumes l: "limpiar e ds = (w, Inr df)" and i: "i < length ds"
  shows "etiqueta df i = i"
    and "celda df i ''Magnitud'' = coerce_numeric e (cell_at (ds ! i) ''Magnitud'')"
    and "celda df i ''Fecha'' =
           (if ''Fecha'' \<in> set (columns (pd_DataFrame ds))
            then (case to_datetime e (columna ds ''Fecha'') of
                    Inr f \<Rightarrow> (case f i of Some t \<Rightarrow> Str (strftime e t) | None \<Rightarrow> NaN)
                  | Inl x \<Rightarrow> NaN)
            else Str (strftime e (fechas_recientes e (pos_fecha ds) (length ds) ! i)))"
    and "coords_missing (pd_DataFrame ds) \<Longrightarrow>
         celda df i ''Latitud'' = Num (lat_min + (lat_max - lat_min) * random_sample e i)"
    and "coords_missing (pd_DataFrame ds) \<Longrightarrow>
         celda df i ''Longitud'' = Num (lon_min + (lon_max - lon_min) * random_sample e (length ds + i))"
proof -
  from l obtain w1 df1 pos df2 w2 where
    c: "coordenadas e (pd_DataFrame ds) = (w1, df1, pos)" and
    m: "magnitud e df1 = Inr df2" and
    f: "fecha e pos df2 = (w2, Inr df)"
    by (rule limpiar_Inr)
  have n0: "length (rows (pd_DataFrame ds)) = length ds"
    by (rule length_rows_pd_DataFrame)
  have n1: "length (rows df1) = length ds"
    using coordenadas_length[OF c] n0 by simp
  have n2: "length (rows df2) = length ds"
    using magnitud_Inr(1)[OF m] n1 by simp
  show "etiqueta df i = i"
    using fecha_stage(3)[OF f, of i] magnitud_Inr(4)[OF m, of i] coordenadas_etiqueta[OF c, of i]
      etiqueta_pd_DataFrame[OF i] i n0 n1 n2 by simp
  have mag1: "celda df1 i ''Magnitud'' = cell_at (ds ! i) ''Magnitud''"
    using coordenadas_other[OF c, of i "''Magnitud''"] i n0 celda_pd_DataFrame[OF i] by simp
  show "celda df i ''Magnitud'' = coerce_numeric e (cell_at (ds ! i) ''Magnitud'')"
    using fecha_stage(4)[OF f, of i "''Magnitud''"] magnitud_Inr(5)[OF m, of i "''Magnitud''"]
      mag1 i n1 n2 by simp
  have fe1: "getitem df2 ''Fecha'' = columna ds ''Fecha''"
    by (rule stage_getitem[OF c m]) simp_all
  have fcol: "''Fecha'' \<in> set (columns df2) \<longleftrightarrow> ''Fecha'' \<in> set (columns (pd_DataFrame ds))"
    using magnitud_Inr(2)[OF m] coordenadas_columns[OF c, of "''Fecha''"] by simp
  have pos: "pos = pos_fecha ds"
    using c n0 by (cases "coords_missing (pd_DataFrame ds)")
      (simp_all add: pos_fecha_def coordenadas_missing_eq coordenadas_present_eq)
  show "celda df i ''Fecha'' =
           (if ''Fecha'' \<in> set (columns (pd_DataFrame ds))
            then (case to_datetime e (columna ds ''Fecha'') of
                    Inr f \<Rightarrow> (case f i of Some t \<Rightarrow> Str (strftime e t) | None \<Rightarrow> NaN)
                  | Inl x \<Rightarrow> NaN)
            else Str (strftime e (fechas_recientes e (pos_fecha ds) (length ds) ! i)))"
    using fecha_stage(5)[OF f, of i] fe1 fcol pos i n2 by simp
  {
    assume cm: "coords_missing (pd_DataFrame ds)"
    have "celda df i ''Latitud'' = celda df1 i ''Latitud''"
      using fecha_stage(4)[OF f, of i "''Latitud''"] magnitud_Inr(5)[OF m, of i "''Latitud''"]
        i n1 n2 by simp
    then show "celda df i ''Latitud'' = Num (lat_min + (lat_max - lat_min) * random_sample e i)"
      using coordenadas_missing(1)[OF c cm, of i] i n0 by simp
    have "celda df i ''Longitud'' = celda df1 i ''Longitud''"
      using fecha_stage(4)[OF f, of i "''Longitud''"] magnitud_Inr(5)[OF m, of i "''Longitud''"]
        i n1 n2 by simp
    then show "celda df i ''Longitud'' = Num (lon_min + (lon_max - lon_min) * random_sample e (length ds + i))"
      using coordenadas_missing(2)[OF c cm, of i] i n0 by simp
  }
qed

subsection \<open>The random draws\<close>

lemma uniform_in_range:
  fixes lo hi u :: rat
  assumes "lo \<le> hi" "0 \<le> u" "u < 1"
  shows "lo \<le> lo + (hi - lo) * u" and "lo + (hi - lo) * u \<le> hi"
proof -
  have d: "0 \<le> hi - lo" using assms by simp
  show "lo \<le> lo + (hi - lo) * u"
    using d assms(2) by simp
  have "(hi - lo) * u \<le> (hi - lo) * 1"
    using d assms(3) by (intro mult_left_mono) simp_all
  then show "lo + (hi - lo) * u \<le> hi" by simp
qed

lemma randint_in_range:
  assumes "0 \<le> u" "u < 1" "lo < hi"
  shows "lo \<le> np_random_randint lo hi u" and "np_random_randint lo hi u < hi"
proof -
  have d: "(0::rat) < of_int (hi - lo)" using assms(3) by simp
  have "0 \<le> of_int (hi - lo) * u" using d assms(1) by simp
  then have "0 \<le> \<lfloor>of_int (hi - lo) * u\<rfloor>" by simp
  then show "lo \<le> np_random_randint lo hi u" by (simp add: np_random_randint_def)
  have "of_int (hi - lo) * u < of_int (hi - lo) * 1"
    using d assms(2) by (intro mult_strict_left_mono) simp_all
  then have "of_int (hi - lo) * u < of_int (hi - lo)" by simp
  then have "\<lfloor>of_int (hi - lo) * u\<rfloor> < hi - lo" by (simp add: floor_less_iff)
  then show "np_random_randint lo hi u < hi" by (simp add: np_random_randint_def)
qed

lemma env_ejemplo_samples:
  "\<forall>k. 0 \<le> random_sample (env_ejemplo resp ch) k \<and> random_sample (env_ejemplo resp ch) k < 1"
  by (simp add: env_ejemplo_def)

lemma nth_fechas_recientes:
  "i < n \<Longrightarrow> fechas_recientes e pos n ! i =
     now e - timedelta_days 30 + timedelta_days (np_random_randint 0 30 (random_sample e (pos + i)))"
  by (simp add: fechas_recientes_def Let_def)

subsection \<open>Index labels, columns and the filter\<close>

lemma map_fst_rows_limpiar:
  assumes l: "limpiar e ds = (w, Inr df)"
  shows "map fst (rows df) = [0..<length ds]"
proof (rule nth_equalityI)
  show "length (map fst (rows df)) = length [0..<length ds]"
    using limpiar_length[OF l] by simp
next
  fix i assume "i < length (map fst (rows df))"
  then have i: "i < length ds" using limpiar_length[OF l] by simp
  then show "map fst (rows df) ! i = [0..<length ds] ! i"
    using limpiar_celdas(1)[OF l i] limpiar_length[OF l] by (simp add: etiqueta_def)
qed

lemma getitem_eq_celdas:
  "getitem df c = map (\<lambda>i. celda df i c) [0..<length (rows df)]"
  by (rule nth_equalityI) (simp_all add: length_getitem getitem_celda)

lemma limpiar_warning_coords:
  assumes l: "limpiar e ds = (w, Inr df)" and cm: "coords_missing (pd_DataFrame ds)"
  shows "St_warning ''No se encontraron las columnas de latitud y longitud en los datos. Creando ubicaciones aleatorias dentro de Chile.'' \<in> set w"
proof -
  from l obtain w1 df1 pos df2 w2 where
    c: "coordenadas e (pd_DataFrame ds) = (w1, df1, pos)" and w: "w = w1 @ w2"
    by (rule limpiar_Inr)
  from c cm w show ?thesis by (auto simp: coordenadas_missing_eq)
qed

lemma rows_sismos_filtrados:
  "rows (sismos_filtrados m df) =
     filter (\<lambda>(i, r). ge_cell (cell_at r ''Magnitud'') m \<and>
                       NaN \<notin> set (map snd (filter (\<lambda>(k, v). k \<in> set [''Latitud'', ''Longitud'']) r)))
       (rows df)"
  by (auto simp: sismos_filtrados_def dropna_def select_rows_def intro!: filter_cong)

lemma columns_sismos_filtrados: "columns (sismos_filtrados m df) = columns df"
  by (simp add: sismos_filtrados_def dropna_def select_rows_def)

lemma row_by_label:
  assumes "map fst (rows df) = [0..<n]" "(i, r) \<in> set (rows df)"
  shows "i < n \<and> r = snd (rows df ! i)"
proof -
  from assms(2) obtain j where j: "j < length (rows df)" "rows df ! j = (i, r)"
    by (auto simp: in_set_conv_nth)
  have len: "length (rows df) = n"
    using arg_cong[OF assms(1), of length] by simp
  have "map fst (rows df) ! j = [0..<n] ! j" using assms(1) by simp
  then have "i = j" using j len by simp
  with j len show ?thesis by auto
qed

subsection \<open>Well-formed frames\<close>

lemma wf_pd_DataFrame: "wf_frame (pd_DataFrame ds)"
  by (simp add: wf_frame_def pd_DataFrame_def Let_def list_all_iff comp_def split: prod.splits)

lemma wf_setitem:
  assumes "wf_frame df"
  shows "wf_frame (setitem c vs df)"
proof -
  have k: "map fst (AList.update c v r) = (if c \<in> set (columns df) then columns df else columns df @ [c])"
    if "map fst r = columns df" for r v
    using that update_keys[of c v r] by (auto simp: image_iff)
  have "map fst (AList.update c v (snd p)) = (if c \<in> set (columns df) then columns df else columns df @ [c])"
    if "p \<in> set (rows df)" for p v
    using that assms by (intro k) (simp add: wf_frame_def list_all_iff)
  then show ?thesis
    using assms
    by (auto simp: wf_frame_def setitem_def list_all_iff split_def dest!: set_zip_leftD)
qed

lemma keys_relabel: "map fst (map (\<lambda>(k, v). (f k, v)) r) = map f (map fst r)"
  by (induction r) auto

lemma wf_rename:
  assumes "wf_frame df" "inj_on f (set (columns df))"
  shows "wf_frame (rename f df)"
  using assms
  by (auto simp: wf_frame_def rename_def list_all_iff distinct_map keys_relabel
      simp del: map_map)

lemma inj_on_lat_lon_labels:
  "''Latitud'' \<notin> A \<Longrightarrow> ''Longitud'' \<notin> A \<Longrightarrow> inj_on lat_lon_labels A"
  by (auto simp: inj_on_def lat_lon_labels_def split: if_splits)

lemma wf_coordenadas:
  assumes "coordenadas e df = (w, df1, pos)" "wf_frame df" "\<not> label_clash df"
  shows "wf_frame df1" and "''Latitud'' \<in> set (columns df1)" and "''Longitud'' \<in> set (columns df1)"
proof -
  show "wf_frame df1"
  proof (cases "coords_missing df")
    case True
    with assms show ?thesis by (auto simp: coordenadas_missing_eq intro!: wf_setitem)
  next
    case False
    with assms(3) have "inj_on lat_lon_labels (set (columns df))"
      by (auto simp: label_clash_def intro!: inj_on_lat_lon_labels)
    with False assms show ?thesis by (auto simp: coordenadas_present_eq intro!: wf_rename)
  qed
  show "''Latitud'' \<in> set (columns df1)"
    using assms(1)
    by (cases "coords_missing df")
       (auto simp: coordenadas_missing_eq coordenadas_present_eq columns_setitem columns_rename
         coords_missing_def lat_lon_labels_def image_iff)
  show "''Longitud'' \<in> set (columns df1)"
    using assms(1)
    by (cases "coords_missing df")
       (auto simp: coordenadas_missing_eq coordenadas_present_eq columns_setitem columns_rename
         coords_missing_def lat_lon_labels_def image_iff)
qed

lemma wf_limpiar:
  assumes l: "limpiar e ds = (w, Inr df)" and nc: "\<not> label_clash (pd_DataFrame ds)"
  shows "wf_frame df" and "''Latitud'' \<in> set (columns df)" and "''Longitud'' \<in> set (columns df)"
proof -
  from l obtain w1 df1 pos df2 w2 where
    c: "coordenadas e (pd_DataFrame ds) = (w1, df1, pos)" and
    m: "magnitud e df1 = Inr df2" and
    f: "fecha e pos df2 = (w2, Inr df)"
    by (rule limpiar_Inr)
  note a = wf_coordenadas[OF c wf_pd_DataFrame nc]
  have w2: "wf_frame df2"
    using m a(1) by (auto simp: magnitud_def split: if_splits intro!: wf_setitem)
  show "wf_frame df"
    using f w2 by (auto simp: fecha_def Let_def split: if_splits sum.splits intro!: wf_setitem)
  show "''Latitud'' \<in> set (columns df)" "''Longitud'' \<in> set (columns df)"
    using a(2,3) magnitud_Inr(2)[OF m] fecha_stage(2)[OF f] by simp_all
qed

lemma no_missing_iff:
  assumes "distinct (map fst r)" "set cs \<subseteq> fst ` set r"
  shows "NaN \<notin> set (map snd (filter (\<lambda>(k, v). k \<in> set cs) r)) \<longleftrightarrow> (\<forall>c\<in>set cs. cell_at r c \<noteq> NaN)"
proof -
  have "(k, v) \<in> set r \<longleftrightarrow> map_of r k = Some v" for k v
    using assms(1) by simp
  moreover have "map_of r c \<noteq> None" if "c \<in> set cs" for c
    using assms(2) that by (auto simp: map_of_eq_None_iff)
  ultimately show ?thesis
    by (auto simp: cell_at_def image_iff split: option.splits)
qed

lemma magnitud_min_range: "0 \<le> magnitud_min e" "magnitud_min e \<le> 10"
  by (simp_all add: magnitud_min_def st_slider_def split: option.splits)

lemma magnitud_min_default: "slider_choice e = None \<Longrightarrow> magnitud_min e = 4"
  by (simp add: magnitud_min_def st_slider_def)

lemma rows_sismos_filtrados_wf:
  assumes wf: "wf_frame df" and la: "''Latitud'' \<in> set (columns df)" and lo: "''Longitud'' \<in> set (columns df)"
  shows "rows (sismos_filtrados m df) =
           filter (\<lambda>(i, r). ge_cell (cell_at r ''Magnitud'') m \<and>
                             cell_at r ''Latitud'' \<noteq> NaN \<and> cell_at r ''Longitud'' \<noteq> NaN)
             (rows df)"
proof -
  have "NaN \<notin> set (map snd (filter (\<lambda>(k, v). k \<in> set [''Latitud'', ''Longitud'']) (snd p)))
          \<longleftrightarrow> cell_at (snd p) ''Latitud'' \<noteq> NaN \<and> cell_at (snd p) ''Longitud'' \<noteq> NaN"
    if p: "p \<in> set (rows df)" for p
  proof -
    have k: "map fst (snd p) = columns df"
      using wf p by (simp add: wf_frame_def list_all_iff)
    have d: "distinct (map fst (snd p))"
      using wf k by (simp add: wf_frame_def)
    have s: "set [''Latitud'', ''Longitud''] \<subseteq> fst ` set (snd p)"
      using la lo k by (metis (no_types, lifting) empty_subsetI insert_subset list.set(1) list.set(2) set_map)
    show ?thesis
      using no_missing_iff[OF d s] by simp
  qed
  then show ?thesis
    unfolding rows_sismos_filtrados
    by (intro filter_cong) (auto simp: split_def)
qed

subsection \<open>Coordinates taken from the answer\<close>

lemma celda_rename_coords:
  assumes wf: "wf_frame df" and i: "i < length (rows df)"
      and la: "''Latitud'' \<notin> set (columns df)" and lo: "''Longitud'' \<notin> set (columns df)"
  shows "celda (rename lat_lon_labels df) i ''Latitud'' = celda df i ''lat''"
    and "celda (rename lat_lon_labels df) i ''Longitud'' = celda df i ''lon''"
proof -
  have k: "map fst (snd (rows df ! i)) = columns df"
    using wf i by (simp add: wf_frame_def list_all_iff)
  have "fst ` set (snd (rows df ! i)) = set (columns df)"
    using arg_cong[OF k, of set] by simp
  with la lo have "''Latitud'' \<notin> fst ` set (snd (rows df ! i))" "''Longitud'' \<notin> fst ` set (snd (rows df ! i))"
    by simp_all
  then show "celda (rename lat_lon_labels df) i ''Latitud'' = celda df i ''lat''"
    and "celda (rename lat_lon_labels df) i ''Longitud'' = celda df i ''lon''"
    using i by (simp_all add: celda_def nth_rows_rename cell_at_relabel_lat cell_at_relabel_lon)
qed

lemma limpiar_present:
  assumes l: "limpiar e ds = (w, Inr df)" and i: "i < length ds"
      and cp: "\<not> coords_missing (pd_DataFrame ds)" and nc: "\<not> label_clash (pd_DataFrame ds)"
  shows "celda df i ''Latitud'' = cell_at (ds ! i) ''lat''"
    and "celda df i ''Longitud'' = cell_at (ds ! i) ''lon''"
proof -
  from l obtain w1 df1 pos df2 w2 where
    c: "coordenadas e (pd_DataFrame ds) = (w1, df1, pos)" and
    m: "magnitud e df1 = Inr df2" and
    f: "fecha e pos df2 = (w2, Inr df)"
    by (rule limpiar_Inr)
  have n0: "length (rows (pd_DataFrame ds)) = length ds"
    by (rule length_rows_pd_DataFrame)
  have n1: "length (rows df1) = length ds"
    using coordenadas_length[OF c] n0 by simp
  have n2: "length (rows df2) = length ds"
    using magnitud_Inr(1)[OF m] n1 by simp
  have df1: "df1 = rename lat_lon_labels (pd_DataFrame ds)"
    using c cp by (simp add: coordenadas_present_eq)
  have free: "''Latitud'' \<notin> set (columns (pd_DataFrame ds))" "''Longitud'' \<notin> set (columns (pd_DataFrame ds))"
    using cp nc by (simp_all add: label_clash_def)
  have a: "celda df1 i ''Latitud'' = cell_at (ds ! i) ''lat''" "celda df1 i ''Longitud'' = cell_at (ds ! i) ''lon''"
    using celda_rename_coords[OF wf_pd_DataFrame _ free, of i] i n0
    by (simp_all add: df1 celda_pd_DataFrame)
  show "celda df i ''Latitud'' = cell_at (ds ! i) ''lat''"
    using fecha_stage(4)[OF f, of i "''Latitud''"] magnitud_Inr(5)[OF m, of i "''Latitud''"]
      a(1) i n1 n2 by simp
  show "celda df i ''Longitud'' = cell_at (ds ! i) ''lon''"
    using fecha_stage(4)[OF f, of i "''Longitud''"] magnitud_Inr(5)[OF m, of i "''Longitud''"]
      a(2) i n1 n2 by simp
qed

subsection \<open>The example run, and the charts\<close>

lemma limpiar_datos_con_coords:
  "limpiar (env_ejemplo resp ch) datos_con_coords = ([], Inr tabla_limpia)"
  by code_simp

lemma mostrar_distinct:
  assumes "distinct (columns df)"
  shows "fst (snd (mostrar e df)) = None"
    and "snd (snd (mostrar e df)) = sort_values ''Fecha'' df"
  using assms by (simp_all add: mostrar_def Let_def)

lemma mostrar_duplicate:
  "\<not> distinct (columns df) \<Longrightarrow>
   mostrar e df = ([St_write ''Ultimos sismos registrados:''], Some ValueError, df)"
  by (simp add: mostrar_def)

lemma distinct_tabla_limpia: "distinct (columns tabla_limpia)"
  by (simp add: tabla_limpia_def)

lemma script_env_con_coords:
  "script env_con_coords =
     \<lparr>trace = preamble @ [St_write ''Conexion exitosa con la API.''] @ [] @ fst (mostrar env_con_coords tabla_limpia),
      raised = None, df_final = Some (sort_values ''Fecha'' tabla_limpia)\<rparr>"
  using script_ok[where e = env_con_coords and r = "Response 200 (Some datos_con_coords)"
      and ds = datos_con_coords and w = "[]" and df = tabla_limpia]
  by (simp add: mostrar_distinct distinct_tabla_limpia)
     (simp add: env_con_coords_def limpiar_datos_con_coords, simp add: env_ejemplo_def)

lemma dt_strftime_slider: "dt_strftime (e\<lparr>slider_choice := c\<rparr>) x = dt_strftime e x"
  by (cases x) simp_all

lemma limpiar_slider: "limpiar (e\<lparr>slider_choice := c\<rparr>) ds = limpiar e ds"
proof -
  have s: "dt_strftime (e\<lparr>slider_choice := c\<rparr>) = dt_strftime e"
    by (rule ext) (rule dt_strftime_slider)
  have n: "coerce_numeric (e\<lparr>slider_choice := c\<rparr>) = coerce_numeric e"
    by (rule ext) (simp add: coerce_numeric_def)
  have a: "coordenadas (e\<lparr>slider_choice := c\<rparr>) df = coordenadas e df" for df
    by (simp add: coordenadas_def)
  have b: "magnitud (e\<lparr>slider_choice := c\<rparr>) df = magnitud e df" for df
    by (simp add: magnitud_def n)
  have f: "fecha (e\<lparr>slider_choice := c\<rparr>) pos df = fecha e pos df" for pos df
    by (simp add: fecha_def fechas_recientes_def s Let_def split: sum.splits)
  show ?thesis
    by (simp add: limpiar_def a b f split: prod.splits sum.splits)
qed

lemma scatter_data_slider: "scatter_data (e\<lparr>slider_choice := c\<rparr>) df = scatter_data e df"
  by (simp add: scatter_data_def)

lemma charts_mostrar:
  "distinct (columns df) \<Longrightarrow>
   filter is_chart (fst (mostrar e df)) =
     [St_pydeck_chart (sismos_filtrados (magnitud_min e) df),
      St_bar_chart (magnitud_counts df),
      St_line_chart (magnitudes_por_fecha (sort_values ''Fecha'' df)),
      St_scatter_chart (scatter_data e (sort_values ''Fecha'' df))]"
  by (simp add: mostrar_def Let_def)

lemma warnings_no_chart: "list_all is_warning w \<Longrightarrow> filter is_chart w = []"
  by (induction w) (auto elim: is_warning.elims)

lemma distinct_limpiar:
  assumes "limpiar e ds = (w, Inr df)" "\<not> label_clash (pd_DataFrame ds)"
  shows "distinct (columns df)"
  using wf_limpiar(1)[OF assms] by (simp add: wf_frame_def)

lemma limpiar_Inr_fecha:
  assumes l: "limpiar e ds = (w, Inr df)" and fc: "''Fecha'' \<in> set (columns (pd_DataFrame ds))"
  shows "\<exists>f. to_datetime e (columna ds ''Fecha'') = Inr f"
proof -
  from l obtain w1 df1 pos df2 w2 where
    c: "coordenadas e (pd_DataFrame ds) = (w1, df1, pos)" and
    m: "magnitud e df1 = Inr df2" and
    f: "fecha e pos df2 = (w2, Inr df)"
    by (rule limpiar_Inr)
  have fcol: "''Fecha'' \<in> set (columns df2)"
    using magnitud_Inr(2)[OF m] coordenadas_columns[OF c, of "''Fecha''"] fc by simp
  have g: "getitem df2 ''Fecha'' = columna ds ''Fecha''"
    by (rule stage_getitem[OF c m]) simp_all
  from f show ?thesis
    using fcol g by (cases rule: fecha_Inr_cases) simp_all
qed

lemma fechas_ok_absent: "''Fecha'' \<notin> set (columns (pd_DataFrame ds)) \<Longrightarrow> fechas_ok e ds"
  by (simp add: fechas_ok_def)

lemma fechas_ok_slider: "fechas_ok (e\<lparr>slider_choice := c\<rparr>) ds = fechas_ok e ds"
  by (simp add: fechas_ok_def)

lemma ge_cell_iff: "ge_cell c m \<longleftrightarrow> (\<exists>x. c = Num x \<and> m \<le> x)"
  by (cases c) simp_all

lemma in_box:
  fixes u v :: rat
  assumes "0 \<le> u" "u < 1" "0 \<le> v" "v < 1"
  shows "- 55 \<le> - 55 + (- 35 / 2 - (- 55)) * u" "- 55 + (- 35 / 2 - (- 55)) * u \<le> - 35 / 2"
    and "- 75 \<le> - 75 + (- 66 - (- 75)) * v" "- 75 + (- 66 - (- 75)) * v \<le> - 66"
  using uniform_in_range[of "- 55" "- 35 / 2" u] uniform_in_range[of "- 75" "- 66" v] assms
  by simp_all

lemma coordenadas_missing_rows:
  assumes c: "coordenadas e (pd_DataFrame ds) = (w, df1, pos)"
      and cm: "coords_missing (pd_DataFrame ds)"
  shows "length (rows df1) = length ds"
    and "i < length ds \<Longrightarrow>
         celda df1 i ''Latitud'' = Num (- 55 + (- 35 / 2 - (- 55)) * random_sample e i)"
    and "i < length ds \<Longrightarrow>
         celda df1 i ''Longitud'' = Num (- 75 + (- 66 - (- 75)) * random_sample e (length ds + i))"
  using coordenadas_length[OF c] coordenadas_missing[OF c cm, of i]
  by (simp_all add: length_rows_pd_DataFrame lat_min_def lat_max_def lon_min_def lon_max_def)

lemma columns_setitem_eq:
  "columns (setitem c vs df) = (if c \<in> set (columns df) then columns df else columns df @ [c])"
  by (simp add: setitem_def)

lemma clash_not_distinct:
  assumes l: "limpiar e ds = (w, Inr df)" and cl: "label_clash (pd_DataFrame ds)"
  shows "\<not> distinct (columns df)"
proof -
  from l obtain w1 df1 pos df2 w2 where
    c: "coordenadas e (pd_DataFrame ds) = (w1, df1, pos)" and
    m: "magnitud e df1 = Inr df2" and
    f: "fecha e pos df2 = (w2, Inr df)"
    by (rule limpiar_Inr)
  let ?cols = "columns (pd_DataFrame ds)"
  have cp: "\<not> coords_missing (pd_DataFrame ds)"
    using cl by (simp add: label_clash_def)
  have df1: "columns df1 = map lat_lon_labels ?cols"
    using c cp by (auto simp: coordenadas_present_eq columns_rename)
  have "\<not> inj_on lat_lon_labels (set ?cols)"
  proof
    assume inj: "inj_on lat_lon_labels (set ?cols)"
    from cl cp consider "''lat'' \<in> set ?cols" "''Latitud'' \<in> set ?cols"
      | "''lon'' \<in> set ?cols" "''Longitud'' \<in> set ?cols"
      by (auto simp: label_clash_def coords_missing_def)
    then show False
    proof cases
      case 1
      with inj have "lat_lon_labels ''lat'' = lat_lon_labels ''Latitud'' \<longrightarrow> ''lat'' = ''Latitud''"
        by (auto dest: inj_onD)
      then show False by (simp add: lat_lon_labels_def)
    next
      case 2
      with inj have "lat_lon_labels ''lon'' = lat_lon_labels ''Longitud'' \<longrightarrow> ''lon'' = ''Longitud''"
        by (auto dest: inj_onD)
      then show False by (simp add: lat_lon_labels_def)
    qed
  qed
  then have d1: "\<not> distinct (columns df1)"
    by (simp add: df1 distinct_map)
  have d2: "\<not> distinct (columns df2)"
    using m d1 by (auto simp: magnitud_def columns_setitem_eq split: if_splits)
  show ?thesis
    using f d2
    by (auto simp: fecha_def Let_def columns_setitem_eq split: if_splits sum.splits)
qed

section \<open>The claims\<close>

subsection \<open>C1\<close>

text \<open>
  C1. The claim as stated (all four charts are drawn from the filtered table) fails. On
  the example answer with the slider untouched (threshold 4) the filtered table holds one
  record, of magnitude 5.1, and the bar chart shown counts the magnitudes 3.2, 5.1 and 6
  of the whole cleaned table.
\<close>

theorem charts_counterexample:
  "limpiar env_con_coords datos_con_coords = ([], Inr tabla_limpia) \<and>
   magnitud_min env_con_coords = 4 \<and>
   magnitud_counts (sismos_filtrados 4 tabla_limpia) = [(51 / 10, 1)] \<and>
   St_bar_chart [(16 / 5, 1), (51 / 10, 1), (6, 1)] \<in> set (trace (script env_con_coords)) \<and>
   St_bar_chart [(51 / 10, 1)] \<notin> set (trace (script env_con_coords))"
proof -
  have a: "limpiar env_con_coords datos_con_coords = ([], Inr tabla_limpia)"
    by (simp add: env_con_coords_def limpiar_datos_con_coords)
  have b: "magnitud_min env_con_coords = 4"
    by (simp add: magnitud_min_def st_slider_def env_con_coords_def env_ejemplo_def)
  have c: "magnitud_counts (sismos_filtrados 4 tabla_limpia) = [(51 / 10, 1)]"
    by code_simp
  have d: "magnitud_counts tabla_limpia = [(16 / 5, 1), (51 / 10, 1), (6, 1)]"
    by code_simp
  have e: "St_bar_chart [(16 / 5, 1), (51 / 10, 1), (6, 1)] \<in> set (trace (script env_con_coords))"
    by (simp add: script_env_con_coords mostrar_def Let_def d distinct_tabla_limpia)
  have f: "St_bar_chart [(51 / 10, 1)] \<notin> set (trace (script env_con_coords))"
    by (simp add: script_env_con_coords mostrar_def Let_def d preamble_def distinct_tabla_limpia)
  from a b c e f show ?thesis by simp
qed

text \<open>
  C1, as the code has it. Take a run with status 200 that reaches the charts: the answer
  has a \<open>Magnitud\<close> key (line 47), \<open>to_datetime\<close> accepts its date column if it has one
  (lines 55 and 58), and it has no \<open>Latitud\<close> or \<open>Longitud\<close> key next to both \<open>lat\<close> and
  \<open>lon\<close> (line 62). The script shows four charts, in this order: the 3D map of the
  filtered table, the bar chart of the magnitude counts of the whole cleaned table, and the
  line chart and the scatter chart of the whole cleaned table sorted by date. Only the
  first depends on the slider: whatever its position, the other three are the same.
\<close>

theorem chart_sources:
  assumes "respuesta e = Some r" "status_code r = 200" "json r = Some ds"
      and mg: "''Magnitud'' \<in> set (columns (pd_DataFrame ds))"
      and fo: "fechas_ok e ds"
      and nc: "\<not> label_clash (pd_DataFrame ds)"
  shows "\<exists>w df. limpiar e ds = (w, Inr df) \<and>
           (\<forall>c. filter is_chart (trace (script (e\<lparr>slider_choice := c\<rparr>))) =
                  [St_pydeck_chart (sismos_filtrados (st_slider 0 10 4 c) df),
                   St_bar_chart (magnitud_counts df),
                   St_line_chart (magnitudes_por_fecha (sort_values ''Fecha'' df)),
                   St_scatter_chart (scatter_data e (sort_values ''Fecha'' df))])"
proof -
  from limpiar_returns[OF mg fo] obtain w df where l: "limpiar e ds = (w, Inr df)" by blast
  have d: "distinct (columns df)" by (rule distinct_limpiar[OF l nc])
  have "filter is_chart (trace (script (e\<lparr>slider_choice := c\<rparr>))) =
          [St_pydeck_chart (sismos_filtrados (st_slider 0 10 4 c) df),
           St_bar_chart (magnitud_counts df),
           St_line_chart (magnitudes_por_fecha (sort_values ''Fecha'' df)),
           St_scatter_chart (scatter_data e (sort_values ''Fecha'' df))]" for c
  proof -
    let ?e = "e\<lparr>slider_choice := c\<rparr>"
    have r: "respuesta ?e = Some r" using assms(1) by simp
    have l': "limpiar ?e ds = (w, Inr df)" using l by (simp add: limpiar_slider)
    have w: "filter is_chart w = []"
      using limpiar_warnings[of e ds] l by (simp add: warnings_no_chart)
    have m: "magnitud_min ?e = st_slider 0 10 4 c"
      by (simp add: magnitud_min_def)
    show ?thesis
      using script_ok[OF r assms(2,3) l'] w m
      by (simp add: charts_mostrar[OF d] preamble_def scatter_data_slider)
  qed
  with l show ?thesis by blast
qed

theorem chart_sources_witness:
  "respuesta env_con_coords = Some (Response 200 (Some datos_con_coords)) \<and>
   ''Magnitud'' \<in> set (columns (pd_DataFrame datos_con_coords)) \<and>
   fechas_ok env_con_coords datos_con_coords \<and>
   \<not> label_clash (pd_DataFrame datos_con_coords) \<and>
   limpiar env_con_coords datos_con_coords = ([], Inr tabla_limpia) \<and>
   filter is_chart (trace (script (env_con_coords\<lparr>slider_choice := None\<rparr>))) =
     [St_pydeck_chart (sismos_filtrados 4 tabla_limpia),
      St_bar_chart (magnitud_counts tabla_limpia),
      St_line_chart (magnitudes_por_fecha (sort_values ''Fecha'' tabla_limpia)),
      St_scatter_chart (scatter_data env_con_coords (sort_values ''Fecha'' tabla_limpia))] \<and>
   filter is_chart (trace (script (env_con_coords\<lparr>slider_choice := Some 6\<rparr>))) =
     [St_pydeck_chart (sismos_filtrados 6 tabla_limpia),
      St_bar_chart (magnitud_counts tabla_limpia),
      St_line_chart (magnitudes_por_fecha (sort_values ''Fecha'' tabla_limpia)),
      St_scatter_chart (scatter_data env_con_coords (sort_values ''Fecha'' tabla_limpia))] \<and>
   map fst (rows (sismos_filtrados 4 tabla_limpia)) = [0] \<and>
   map fst (rows (sismos_filtrados 6 tabla_limpia)) = [] \<and>
   magnitud_counts tabla_limpia = [(16 / 5, 1), (51 / 10, 1), (6, 1)]"
proof -
  have h1: "respuesta env_con_coords = Some (Response 200 (Some datos_con_coords))"
    by (simp add: env_con_coords_def env_ejemplo_def)
  have h2: "''Magnitud'' \<in> set (columns (pd_DataFrame datos_con_coords))"
    by (simp add: pd_DataFrame_def datos_con_coords_def)
  have h3: "\<not> label_clash (pd_DataFrame datos_con_coords)"
    by (simp add: label_clash_def coords_missing_def pd_DataFrame_def datos_con_coords_def)
  have h4: "fechas_ok env_con_coords datos_con_coords"
    by (simp add: fechas_ok_def columna_def cell_at_def datos_con_coords_def env_con_coords_def
        env_ejemplo_def)
  have a: "limpiar env_con_coords datos_con_coords = ([], Inr tabla_limpia)"
    by (simp add: env_con_coords_def limpiar_datos_con_coords)
  from chart_sources [OF h1 _ _ h2 h4 h3] a
  have c: "\<forall>c. filter is_chart (trace (script (env_con_coords\<lparr>slider_choice := c\<rparr>))) =
                  [St_pydeck_chart (sismos_filtrados (st_slider 0 10 4 c) tabla_limpia),
                   St_bar_chart (magnitud_counts tabla_limpia),
                   St_line_chart (magnitudes_por_fecha (sort_values ''Fecha'' tabla_limpia)),
                   St_scatter_chart (scatter_data env_con_coords (sort_values ''Fecha'' tabla_limpia))]"
    by simp
  have c4: "filter is_chart (trace (script (env_con_coords\<lparr>slider_choice := None\<rparr>))) =
     [St_pydeck_chart (sismos_filtrados 4 tabla_limpia),
      St_bar_chart (magnitud_counts tabla_limpia),
      St_line_chart (magnitudes_por_fecha (sort_values ''Fecha'' tabla_limpia)),
      St_scatter_chart (scatter_data env_con_coords (sort_values ''Fecha'' tabla_limpia))]"
    using c[rule_format, of None] by (simp add: st_slider_def)
  have c6: "filter is_chart (trace (script (env_con_coords\<lparr>slider_choice := Some 6\<rparr>))) =
     [St_pydeck_chart (sismos_filtrados 6 tabla_limpia),
      St_bar_chart (magnitud_counts tabla_limpia),
      St_line_chart (magnitudes_por_fecha (sort_values ''Fecha'' tabla_limpia)),
      St_scatter_chart (scatter_data env_con_coords (sort_values ''Fecha'' tabla_limpia))]"
    using c[rule_format, of "Some 6"] by (simp add: st_slider_def)
  have v4: "map fst (rows (sismos_filtrados 4 tabla_limpia)) = [0]"
    by code_simp
  have v6: "map fst (rows (sismos_filtrados 6 tabla_limpia)) = []"
    by code_simp
  have vb: "magnitud_counts tabla_limpia = [(16 / 5, 1), (51 / 10, 1), (6, 1)]"
    by code_simp
  show ?thesis
    by (intro conjI) (rule h1 h2 h3 h4 a c4 c6 v4 v6 vb)+
qed

subsection \<open>C2\<close>

text \<open>
  C2. The claim as stated (after cleaning no record lacks a coordinate pair, and every
  timestamp is parsed or defaulted) fails on an answer that has both coordinate columns and a
  date column: its third record has no \<open>lat\<close> key and a date that does not parse, and
  after cleaning its latitude and its date are both missing, while its magnitude is 6.
\<close>

theorem cleaned_record_counterexample:
  "limpiar (env_ejemplo None None) datos_con_coords = ([], Inr tabla_limpia) \<and>
   cell_at (datos_con_coords ! 2) ''Magnitud'' = Num 6 \<and>
   celda tabla_limpia 2 ''Magnitud'' = Num 6 \<and>
   celda tabla_limpia 2 ''Latitud'' = NaN \<and>
   celda tabla_limpia 2 ''Fecha'' = NaN"
  by (simp add: limpiar_datos_con_coords)
     (simp add: tabla_limpia_def datos_con_coords_def celda_def cell_at_def)

text \<open>
  C2, as the code has it. Once cleaning has completed, every record has: a magnitude
  that is the parsed number, or missing where the value does not parse; a date that is
  the formatted timestamp \<open>to_datetime\<close> gave it within its column, or missing where it
  gave none, or, when the answer has no date column, an imputed one; and coordinates that
  are synthesized numbers inside the box when a coordinate column is absent, and
  otherwise, on an answer with no \<open>Latitud\<close> or \<open>Longitud\<close> key of its own, the answer's
  \<open>lat\<close> and \<open>lon\<close> values, missing where the record has none.
\<close>

theorem cleaned_record:
  assumes l: "limpiar e ds = (w, Inr df)"
      and rng: "\<forall>k. 0 \<le> random_sample e k \<and> random_sample e k < 1"
  shows "length (rows df) = length ds \<and>
         (\<forall>i<length ds.
            celda df i ''Magnitud'' =
              (case to_numeric e (cell_at (ds ! i) ''Magnitud'') of
                 Some x \<Rightarrow> Num x | None \<Rightarrow> NaN) \<and>
            (if ''Fecha'' \<in> set (columns (pd_DataFrame ds))
             then \<exists>f. to_datetime e (columna ds ''Fecha'') = Inr f \<and>
                    celda df i ''Fecha'' =
                      (case f i of Some t \<Rightarrow> Str (strftime e t) | None \<Rightarrow> NaN)
             else \<exists>k. 0 \<le> k \<and> k < 30 \<and>
                    celda df i ''Fecha'' = Str (strftime e (now e - 30 * 86400000000 + k * 86400000000))) \<and>
            (if coords_missing (pd_DataFrame ds)
             then \<exists>la lo. celda df i ''Latitud'' = Num la \<and> celda df i ''Longitud'' = Num lo \<and>
                    - 55 \<le> la \<and> la \<le> - 35 / 2 \<and> - 75 \<le> lo \<and> lo \<le> - 66
             else \<not> label_clash (pd_DataFrame ds) \<longrightarrow>
                  celda df i ''Latitud'' = cell_at (ds ! i) ''lat'' \<and>
                  celda df i ''Longitud'' = cell_at (ds ! i) ''lon''))"
proof -
  have "celda df i ''Magnitud'' =
              (case to_numeric e (cell_at (ds ! i) ''Magnitud'') of
                 Some x \<Rightarrow> Num x | None \<Rightarrow> NaN) \<and>
            (if ''Fecha'' \<in> set (columns (pd_DataFrame ds))
             then \<exists>f. to_datetime e (columna ds ''Fecha'') = Inr f \<and>
                    celda df i ''Fecha'' =
                      (case f i of Some t \<Rightarrow> Str (strftime e t) | None \<Rightarrow> NaN)
             else \<exists>k. 0 \<le> k \<and> k < 30 \<and>
                    celda df i ''Fecha'' = Str (strftime e (now e - 30 * 86400000000 + k * 86400000000))) \<and>
            (if coords_missing (pd_DataFrame ds)
             then \<exists>la lo. celda df i ''Latitud'' = Num la \<and> celda df i ''Longitud'' = Num lo \<and>
                    - 55 \<le> la \<and> la \<le> - 35 / 2 \<and> - 75 \<le> lo \<and> lo \<le> - 66
             else \<not> label_clash (pd_DataFrame ds) \<longrightarrow>
                  celda df i ''Latitud'' = cell_at (ds ! i) ''lat'' \<and>
                  celda df i ''Longitud'' = cell_at (ds ! i) ''lon'')"
    if i: "i < length ds" for i
  proof (intro conjI)
    show "celda df i ''Magnitud'' =
            (case to_numeric e (cell_at (ds ! i) ''Magnitud'') of Some x \<Rightarrow> Num x | None \<Rightarrow> NaN)"
      using limpiar_celdas(2)[OF l i] by (simp add: coerce_numeric_def)
    show "if ''Fecha'' \<in> set (columns (pd_DataFrame ds))
          then \<exists>f. to_datetime e (columna ds ''Fecha'') = Inr f \<and>
                 celda df i ''Fecha'' =
                   (case f i of Some t \<Rightarrow> Str (strftime e t) | None \<Rightarrow> NaN)
          else \<exists>k. 0 \<le> k \<and> k < 30 \<and>
                 celda df i ''Fecha'' = Str (strftime e (now e - 30 * 86400000000 + k * 86400000000))"
    proof (cases "''Fecha'' \<in> set (columns (pd_DataFrame ds))")
      case True
      from limpiar_Inr_fecha[OF l True] obtain f where f: "to_datetime e (columna ds ''Fecha'') = Inr f"
        by blast
      have "celda df i ''Fecha'' = (case f i of Some t \<Rightarrow> Str (strftime e t) | None \<Rightarrow> NaN)"
        using limpiar_celdas(3)[OF l i] True f by simp
      with True f show ?thesis by simp
    next
      case False
      define k where "k = np_random_randint 0 30 (random_sample e (pos_fecha ds + i))"
      have k: "0 \<le> k" "k < 30"
        using randint_in_range[of "random_sample e (pos_fecha ds + i)" 0 30] rng
        by (simp_all add: k_def)
      have "celda df i ''Fecha'' = Str (strftime e (now e - 30 * 86400000000 + k * 86400000000))"
        using limpiar_celdas(3)[OF l i] False i
        by (simp add: nth_fechas_recientes timedelta_days_def k_def)
      with k False show ?thesis by auto
    qed
    show "if coords_missing (pd_DataFrame ds)
          then \<exists>la lo. celda df i ''Latitud'' = Num la \<and> celda df i ''Longitud'' = Num lo \<and>
                 - 55 \<le> la \<and> la \<le> - 35 / 2 \<and> - 75 \<le> lo \<and> lo \<le> - 66
          else \<not> label_clash (pd_DataFrame ds) \<longrightarrow>
               celda df i ''Latitud'' = cell_at (ds ! i) ''lat'' \<and>
               celda df i ''Longitud'' = cell_at (ds ! i) ''lon''"
    proof (cases "coords_missing (pd_DataFrame ds)")
      case True
      have u: "0 \<le> random_sample e i" "random_sample e i < 1"
        and v: "0 \<le> random_sample e (length ds + i)" "random_sample e (length ds + i) < 1"
        using rng by simp_all
      have "lat_min \<le> lat_min + (lat_max - lat_min) * random_sample e i"
           "lat_min + (lat_max - lat_min) * random_sample e i \<le> lat_max"
           "lon_min \<le> lon_min + (lon_max - lon_min) * random_sample e (length ds + i)"
           "lon_min + (lon_max - lon_min) * random_sample e (length ds + i) \<le> lon_max"
        using uniform_in_range[of lat_min lat_max, OF _ u] uniform_in_range[of lon_min lon_max, OF _ v]
        by (simp_all add: lat_min_def lat_max_def lon_min_def lon_max_def)
      then show ?thesis
        using True limpiar_celdas(4,5)[OF l i True]
        by (simp add: lat_min_def lat_max_def lon_min_def lon_max_def)
    next
      case False
      then show ?thesis using limpiar_present[OF l i False] by simp
    qed
  qed
  with limpiar_length[OF l] show ?thesis by blast
qed

theorem cleaned_record_witness:
  "limpiar (env_ejemplo None None) datos_con_coords = ([], Inr tabla_limpia) \<and>
   ''Fecha'' \<in> set (columns (pd_DataFrame datos_con_coords)) \<and>
   \<not> coords_missing (pd_DataFrame datos_con_coords) \<and>
   \<not> label_clash (pd_DataFrame datos_con_coords) \<and>
   length (rows tabla_limpia) = 4 \<and>
   celda tabla_limpia 0 ''Magnitud'' = Num (51 / 10) \<and>
   celda tabla_limpia 0 ''Fecha'' = Str ''2024-11-02 10:00:00'' \<and>
   celda tabla_limpia 0 ''Latitud'' = Num (- 33) \<and> celda tabla_limpia 0 ''Longitud'' = Num (- 70) \<and>
   celda tabla_limpia 2 ''Magnitud'' = Num 6 \<and> celda tabla_limpia 2 ''Fecha'' = NaN \<and>
   celda tabla_limpia 2 ''Latitud'' = NaN \<and> celda tabla_limpia 2 ''Longitud'' = Num (- 71) \<and>
   celda tabla_limpia 3 ''Magnitud'' = NaN \<and>
   coords_missing (pd_DataFrame datos_api) \<and>
   (\<exists>w df la lo. limpiar (env_ejemplo None None) datos_api = (w, Inr df) \<and>
      celda df 0 ''Magnitud'' = Num (51 / 10) \<and> celda df 2 ''Magnitud'' = NaN \<and>
      celda df 0 ''Latitud'' = Num la \<and> celda df 0 ''Longitud'' = Num lo \<and>
      - 55 \<le> la \<and> la \<le> - 35 / 2 \<and> - 75 \<le> lo \<and> lo \<le> - 66)"
proof -
  have a: "limpiar (env_ejemplo None None) datos_con_coords = ([], Inr tabla_limpia)"
    by (rule limpiar_datos_con_coords)
  have a3: "''Fecha'' \<in> set (columns (pd_DataFrame datos_con_coords))"
    and a4: "\<not> coords_missing (pd_DataFrame datos_con_coords)"
    and a2: "\<not> label_clash (pd_DataFrame datos_con_coords)"
    by (simp_all add: label_clash_def coords_missing_def pd_DataFrame_def datos_con_coords_def)
  have na: "length datos_con_coords = 4"
    by (simp add: datos_con_coords_def)
  have td: "to_datetime (env_ejemplo None None) (columna datos_con_coords ''Fecha'') =
              Inr (\<lambda>i. if i < 4 then
                          (if i = 0 then Some 1730541600000000
                           else if i = 1 \<or> i = 3 then Some 1730449800000000 else None)
                        else None)"
    by (auto simp: env_ejemplo_def columna_def datos_con_coords_def cell_at_def
        nth_Cons split: nat.splits)
  note t = cleaned_record [OF a env_ejemplo_samples]
  from t have len: "length (rows tabla_limpia) = length datos_con_coords" by blast
  from t have r: "\<forall>i<length datos_con_coords.
              celda tabla_limpia i ''Magnitud'' =
                (case to_numeric (env_ejemplo None None) (cell_at (datos_con_coords ! i) ''Magnitud'') of
                   Some x \<Rightarrow> Num x | None \<Rightarrow> NaN) \<and>
              (\<exists>f. to_datetime (env_ejemplo None None) (columna datos_con_coords ''Fecha'') = Inr f \<and>
                 celda tabla_limpia i ''Fecha'' =
                   (case f i of Some t \<Rightarrow> Str (strftime (env_ejemplo None None) t) | None \<Rightarrow> NaN)) \<and>
              celda tabla_limpia i ''Latitud'' = cell_at (datos_con_coords ! i) ''lat'' \<and>
              celda tabla_limpia i ''Longitud'' = cell_at (datos_con_coords ! i) ''lon''"
    using a3 a4 a2 by simp
  have r0: "celda tabla_limpia 0 ''Magnitud'' = Num (51 / 10)"
      "celda tabla_limpia 0 ''Fecha'' = Str ''2024-11-02 10:00:00''"
      "celda tabla_limpia 0 ''Latitud'' = Num (- 33)" "celda tabla_limpia 0 ''Longitud'' = Num (- 70)"
    using r[rule_format, of 0] na td
    by (simp_all add: env_ejemplo_def datos_con_coords_def cell_at_def)
  have r2: "celda tabla_limpia 2 ''Magnitud'' = Num 6" "celda tabla_limpia 2 ''Fecha'' = NaN"
      "celda tabla_limpia 2 ''Latitud'' = NaN" "celda tabla_limpia 2 ''Longitud'' = Num (- 71)"
    using r[rule_format, of 2] na td
    by (simp_all add: env_ejemplo_def datos_con_coords_def cell_at_def)
  have r3: "celda tabla_limpia 3 ''Magnitud'' = NaN"
    using r[rule_format, of 3] na
    by (simp add: env_ejemplo_def datos_con_coords_def cell_at_def)
  have len4: "length (rows tabla_limpia) = 4" using len na by simp
  have b1: "''Magnitud'' \<in> set (columns (pd_DataFrame datos_api))"
    and b4: "coords_missing (pd_DataFrame datos_api)"
    by (simp_all add: coords_missing_def pd_DataFrame_def datos_api_def)
  have b3: "fechas_ok (env_ejemplo None None) datos_api"
    by (simp add: fechas_ok_def columna_def cell_at_def datos_api_def env_ejemplo_def)
  have nb: "length datos_api = 3"
    by (simp add: datos_api_def)
  from limpiar_returns[OF b1 b3] obtain w' df'
    where l': "limpiar (env_ejemplo None None) datos_api = (w', Inr df')" by blast
  from cleaned_record [OF l' env_ejemplo_samples] b4
  have r': "\<forall>i<length datos_api.
              celda df' i ''Magnitud'' =
                (case to_numeric (env_ejemplo None None) (cell_at (datos_api ! i) ''Magnitud'') of
                   Some x \<Rightarrow> Num x | None \<Rightarrow> NaN) \<and>
              (\<exists>la lo. celda df' i ''Latitud'' = Num la \<and> celda df' i ''Longitud'' = Num lo \<and>
                      - 55 \<le> la \<and> la \<le> - 35 / 2 \<and> - 75 \<le> lo \<and> lo \<le> - 66)"
    by simp
  from r'[rule_format, of 0] nb obtain la lo where rb: "celda df' 0 ''Magnitud'' = Num (51 / 10)"
      "celda df' 0 ''Latitud'' = Num la" "celda df' 0 ''Longitud'' = Num lo"
      "- 55 \<le> la" "la \<le> - 35 / 2" "- 75 \<le> lo" "lo \<le> - 66"
    by (auto simp: env_ejemplo_def datos_api_def cell_at_def)
  have rb2: "celda df' 2 ''Magnitud'' = NaN"
    using r'[rule_format, of 2] nb by (simp add: env_ejemplo_def datos_api_def cell_at_def)
  have B: "\<exists>w df la lo. limpiar (env_ejemplo None None) datos_api = (w, Inr df) \<and>
      celda df 0 ''Magnitud'' = Num (51 / 10) \<and> celda df 2 ''Magnitud'' = NaN \<and>
      celda df 0 ''Latitud'' = Num la \<and> celda df 0 ''Longitud'' = Num lo \<and>
      - 55 \<le> la \<and> la \<le> - 35 / 2 \<and> - 75 \<le> lo \<and> lo \<le> - 66"
    by (intro exI[of _ w'] exI[of _ df'] exI[of _ la] exI[of _ lo] conjI) (rule l' rb rb2)+
  show ?thesis
    by (intro conjI) (rule a a3 a4 a2 len4 r0 r2 r3 b4 B)+
qed

subsection \<open>C3\<close>

text \<open>
  C3. When the answer lacks a latitude or a longitude column, every record gets a
  synthesized pair: its latitude is \<open>-55 + 37.5 u\<close> and its longitude \<open>-75 + 9 v\<close> for two
  samples \<open>u\<close>, \<open>v\<close> of the generator, so the point lies in the box
  \<open>[-55, -17.5] \<times> [-75, -66]\<close>. This holds of the table as lines 40 and 41 leave it, and
  of every cleaned table; and the table is cleaned when the answer has a \<open>Magnitud\<close> key
  and the date stage does not raise. The generator's contract (samples in \<open>[0, 1)\<close>) is
  the hypothesis; that the draw is uniform is a property of numpy, not of the script.
\<close>

theorem synthesized_coordinates:
  assumes cm: "coords_missing (pd_DataFrame ds)"
      and rng: "\<forall>k. 0 \<le> random_sample e k \<and> random_sample e k < 1"
  shows "(\<exists>w df1 pos. coordenadas e (pd_DataFrame ds) = (w, df1, pos) \<and>
            length (rows df1) = length ds \<and>
            (\<forall>i<length ds. \<exists>la lo.
               celda df1 i ''Latitud'' = Num la \<and> celda df1 i ''Longitud'' = Num lo \<and>
               la = - 55 + (- 35 / 2 - (- 55)) * random_sample e i \<and>
               lo = - 75 + (- 66 - (- 75)) * random_sample e (length ds + i) \<and>
               - 55 \<le> la \<and> la \<le> - 35 / 2 \<and> - 75 \<le> lo \<and> lo \<le> - 66)) \<and>
         (\<forall>w df. limpiar e ds = (w, Inr df) \<longrightarrow>
            length (rows df) = length ds \<and>
            (\<forall>i<length ds. \<exists>la lo.
               celda df i ''Latitud'' = Num la \<and> celda df i ''Longitud'' = Num lo \<and>
               la = - 55 + (- 35 / 2 - (- 55)) * random_sample e i \<and>
               lo = - 75 + (- 66 - (- 75)) * random_sample e (length ds + i) \<and>
               - 55 \<le> la \<and> la \<le> - 35 / 2 \<and> - 75 \<le> lo \<and> lo \<le> - 66)) \<and>
         (''Magnitud'' \<in> set (columns (pd_DataFrame ds)) \<and> fechas_ok e ds \<longrightarrow>
            (\<exists>w df. limpiar e ds = (w, Inr df)))"
proof (intro conjI allI impI)
  have box: "- 55 \<le> - 55 + (- 35 / 2 - (- 55)) * random_sample e i \<and>
             - 55 + (- 35 / 2 - (- 55)) * random_sample e i \<le> - 35 / 2 \<and>
             - 75 \<le> - 75 + (- 66 - (- 75)) * random_sample e (length ds + i) \<and>
             - 75 + (- 66 - (- 75)) * random_sample e (length ds + i) \<le> - 66" for i
    using in_box[of "random_sample e i" "random_sample e (length ds + i)"] rng by simp
  obtain w1 df1 pos where c: "coordenadas e (pd_DataFrame ds) = (w1, df1, pos)"
    by (cases "coordenadas e (pd_DataFrame ds)")
  have "\<forall>i<length ds. \<exists>la lo.
               celda df1 i ''Latitud'' = Num la \<and> celda df1 i ''Longitud'' = Num lo \<and>
               la = - 55 + (- 35 / 2 - (- 55)) * random_sample e i \<and>
               lo = - 75 + (- 66 - (- 75)) * random_sample e (length ds + i) \<and>
               - 55 \<le> la \<and> la \<le> - 35 / 2 \<and> - 75 \<le> lo \<and> lo \<le> - 66"
    using coordenadas_missing_rows(2,3)[OF c cm] box by simp
  with c coordenadas_missing_rows(1)[OF c cm]
  show "\<exists>w df1 pos. coordenadas e (pd_DataFrame ds) = (w, df1, pos) \<and>
            length (rows df1) = length ds \<and>
            (\<forall>i<length ds. \<exists>la lo.
               celda df1 i ''Latitud'' = Num la \<and> celda df1 i ''Longitud'' = Num lo \<and>
               la = - 55 + (- 35 / 2 - (- 55)) * random_sample e i \<and>
               lo = - 75 + (- 66 - (- 75)) * random_sample e (length ds + i) \<and>
               - 55 \<le> la \<and> la \<le> - 35 / 2 \<and> - 75 \<le> lo \<and> lo \<le> - 66)"
    by blast
next
  fix w df assume l: "limpiar e ds = (w, Inr df)"
  show "length (rows df) = length ds" by (rule limpiar_length[OF l])
next
  fix w df i assume l: "limpiar e ds = (w, Inr df)" and i: "i < length ds"
  have la: "celda df i ''Latitud'' = Num (- 55 + (- 35 / 2 - (- 55)) * random_sample e i)"
    using limpiar_celdas(4)[OF l i cm] by (simp add: lat_min_def lat_max_def)
  have lo: "celda df i ''Longitud'' = Num (- 75 + (- 66 - (- 75)) * random_sample e (length ds + i))"
    using limpiar_celdas(5)[OF l i cm] by (simp add: lon_min_def lon_max_def)
  show "\<exists>la lo.
          celda df i ''Latitud'' = Num la \<and> celda df i ''Longitud'' = Num lo \<and>
          la = - 55 + (- 35 / 2 - (- 55)) * random_sample e i \<and>
          lo = - 75 + (- 66 - (- 75)) * random_sample e (length ds + i) \<and>
          - 55 \<le> la \<and> la \<le> - 35 / 2 \<and> - 75 \<le> lo \<and> lo \<le> - 66"
    using la lo in_box[of "random_sample e i" "random_sample e (length ds + i)"] rng by simp
next
  assume "''Magnitud'' \<in> set (columns (pd_DataFrame ds)) \<and> fechas_ok e ds"
  then show "\<exists>w df. limpiar e ds = (w, Inr df)"
    using limpiar_returns by blast
qed

theorem synthesized_coordinates_witness:
  "coords_missing (pd_DataFrame datos_api) \<and>
   ''Magnitud'' \<in> set (columns (pd_DataFrame datos_api)) \<and>
   fechas_ok (env_ejemplo None None) datos_api \<and>
   (\<exists>w df. limpiar (env_ejemplo None None) datos_api = (w, Inr df) \<and> length (rows df) = 3 \<and>
      celda df 1 ''Latitud'' = Num (- 85 / 2) \<and> celda df 1 ''Longitud'' = Num (- 147 / 2) \<and>
      - 55 \<le> (- 85 / 2 :: rat) \<and> (- 85 / 2 :: rat) \<le> - 35 / 2 \<and>
      - 75 \<le> (- 147 / 2 :: rat) \<and> (- 147 / 2 :: rat) \<le> - 66)"
proof -
  have h1: "coords_missing (pd_DataFrame datos_api)"
    by (simp add: coords_missing_def pd_DataFrame_def datos_api_def)
  have h2: "''Magnitud'' \<in> set (columns (pd_DataFrame datos_api))"
    by (simp add: pd_DataFrame_def datos_api_def)
  have h3: "fechas_ok (env_ejemplo None None) datos_api"
    by (simp add: fechas_ok_def columna_def cell_at_def datos_api_def env_ejemplo_def)
  have n: "length datos_api = 3"
    by (simp add: datos_api_def)
  note t = synthesized_coordinates [OF h1 env_ejemplo_samples, of None None]
  from t h2 h3 obtain w df where l: "limpiar (env_ejemplo None None) datos_api = (w, Inr df)"
    by blast
  from t l have len: "length (rows df) = length datos_api"
    and box: "\<forall>i<length datos_api. \<exists>la lo.
              celda df i ''Latitud'' = Num la \<and> celda df i ''Longitud'' = Num lo \<and>
              la = - 55 + (- 35 / 2 - (- 55)) * random_sample (env_ejemplo None None) i \<and>
              lo = - 75 + (- 66 - (- 75)) * random_sample (env_ejemplo None None) (length datos_api + i) \<and>
              - 55 \<le> la \<and> la \<le> - 35 / 2 \<and> - 75 \<le> lo \<and> lo \<le> - 66"
    by blast+
  from box n have "celda df 1 ''Latitud'' = Num (- 85 / 2) \<and> celda df 1 ''Longitud'' = Num (- 147 / 2)"
    by (auto simp: env_ejemplo_def dest!: spec[of _ 1])
  with l len n h1 h2 h3 show ?thesis by auto
qed

subsection \<open>C4\<close>

text \<open>
  C4. When the answer has no date column (and has a \<open>Magnitud\<close> key, so that line 47
  lets the run reach line 50), every record of the cleaned table gets the timestamp (now
  minus 30 days) plus a whole number \<open>k\<close> of days, \<open>0 \<le> k < 30\<close>, formatted by line 58;
  the timestamp lies between 30 days ago and now. Times are in microseconds, a day is
  \<open>86400000000\<close>.
\<close>

theorem imputed_dates:
  assumes nf: "''Fecha'' \<notin> set (columns (pd_DataFrame ds))"
      and mg: "''Magnitud'' \<in> set (columns (pd_DataFrame ds))"
      and rng: "\<forall>k. 0 \<le> random_sample e k \<and> random_sample e k < 1"
  shows "\<exists>w df. limpiar e ds = (w, Inr df) \<and> length (rows df) = length ds \<and>
           (\<forall>i<length ds. \<exists>k t.
              0 \<le> k \<and> k < 30 \<and> t = now e - 30 * 86400000000 + k * 86400000000 \<and>
              celda df i ''Fecha'' = Str (strftime e t) \<and>
              now e - 30 * 86400000000 \<le> t \<and> t \<le> now e)"
proof -
  from limpiar_returns[OF mg fechas_ok_absent[OF nf]] obtain w df where l: "limpiar e ds = (w, Inr df)" by blast
  have "\<exists>k t. 0 \<le> k \<and> k < 30 \<and> t = now e - 30 * 86400000000 + k * 86400000000 \<and>
          celda df i ''Fecha'' = Str (strftime e t) \<and>
          now e - 30 * 86400000000 \<le> t \<and> t \<le> now e" if i: "i < length ds" for i
  proof -
    define k where "k = np_random_randint 0 30 (random_sample e (pos_fecha ds + i))"
    define t where "t = now e - 30 * 86400000000 + k * 86400000000"
    have k: "0 \<le> k" "k < 30"
      using randint_in_range[of "random_sample e (pos_fecha ds + i)" 0 30] rng
      by (simp_all add: k_def)
    have "celda df i ''Fecha'' = Str (strftime e (fechas_recientes e (pos_fecha ds) (length ds) ! i))"
      using limpiar_celdas(3)[OF l i] nf by simp
    then have c: "celda df i ''Fecha'' = Str (strftime e t)"
      using i by (simp add: nth_fechas_recientes timedelta_days_def k_def t_def)
    have "now e - 30 * 86400000000 \<le> t" "t \<le> now e"
      using k by (simp_all add: t_def)
    with k c t_def show ?thesis by blast
  qed
  with l limpiar_length[OF l] show ?thesis by blast
qed

theorem imputed_dates_witness:
  "''Fecha'' \<notin> set (columns (pd_DataFrame datos_sin_fecha)) \<and>
   ''Magnitud'' \<in> set (columns (pd_DataFrame datos_sin_fecha)) \<and>
   now (env_ejemplo None None) = 1730635200000000 \<and>
   (\<exists>w df (k::int) (t::int). limpiar (env_ejemplo None None) datos_sin_fecha = (w, Inr df) \<and>
      length (rows df) = 2 \<and> 0 \<le> k \<and> k < 30 \<and>
      t = 1730635200000000 - 30 * 86400000000 + k * 86400000000 \<and>
      celda df 1 ''Fecha'' = Str (strftime (env_ejemplo None None) t) \<and>
      1730635200000000 - 30 * 86400000000 \<le> t \<and> t \<le> 1730635200000000 \<and>
      getitem df ''Fecha'' = [Str ''2024-10-19 12:00:00'', Str ''2024-10-14 12:00:00''])"
proof -
  have h1: "''Fecha'' \<notin> set (columns (pd_DataFrame datos_sin_fecha))"
    by (simp add: pd_DataFrame_def datos_sin_fecha_def)
  have h2: "''Magnitud'' \<in> set (columns (pd_DataFrame datos_sin_fecha))"
    by (simp add: pd_DataFrame_def datos_sin_fecha_def)
  have n: "length datos_sin_fecha = 2"
    by (simp add: datos_sin_fecha_def)
  have nw: "now (env_ejemplo None None) = 1730635200000000"
    by (simp add: env_ejemplo_def)
  from imputed_dates [OF h1 h2 env_ejemplo_samples, of None None]
  obtain w df where l: "limpiar (env_ejemplo None None) datos_sin_fecha = (w, Inr df)"
    and len: "length (rows df) = length datos_sin_fecha"
    and dates: "\<forall>i<length datos_sin_fecha. \<exists>k t.
              0 \<le> k \<and> k < 30 \<and> t = now (env_ejemplo None None) - 30 * 86400000000 + k * 86400000000 \<and>
              celda df i ''Fecha'' = Str (strftime (env_ejemplo None None) t) \<and>
              now (env_ejemplo None None) - 30 * 86400000000 \<le> t \<and> t \<le> now (env_ejemplo None None)"
    by blast
  from dates n obtain k t where kt: "0 \<le> k" "k < 30"
    "t = 1730635200000000 - 30 * 86400000000 + k * 86400000000"
    "celda df 1 ''Fecha'' = Str (strftime (env_ejemplo None None) t)"
    "1730635200000000 - 30 * 86400000000 \<le> t" "t \<le> 1730635200000000"
    unfolding nw by (auto dest!: spec[of _ 1])
  have "(case snd (limpiar (env_ejemplo None None) datos_sin_fecha) of
           Inr d \<Rightarrow> getitem d ''Fecha'' | Inl x \<Rightarrow> [])
        = [Str ''2024-10-19 12:00:00'', Str ''2024-10-14 12:00:00'']"
    by code_simp
  with l have g: "getitem df ''Fecha'' = [Str ''2024-10-19 12:00:00'', Str ''2024-10-14 12:00:00'']"
    by simp
  have len2: "length (rows df) = 2" using len n by simp
  have "\<exists>w df (k::int) (t::int). limpiar (env_ejemplo None None) datos_sin_fecha = (w, Inr df) \<and>
      length (rows df) = 2 \<and> 0 \<le> k \<and> k < 30 \<and>
      t = 1730635200000000 - 30 * 86400000000 + k * 86400000000 \<and>
      celda df 1 ''Fecha'' = Str (strftime (env_ejemplo None None) t) \<and>
      1730635200000000 - 30 * 86400000000 \<le> t \<and> t \<le> 1730635200000000 \<and>
      getitem df ''Fecha'' = [Str ''2024-10-19 12:00:00'', Str ''2024-10-14 12:00:00'']"
    by (intro exI[of _ w] exI[of _ df] exI[of _ k] exI[of _ t] conjI) (rule l len2 kt g)+
  with h1 h2 nw show ?thesis by simp
qed

subsection \<open>C5\<close>

text \<open>
  C5. Take a run that reaches line 70 (status 200, a \<open>Magnitud\<close> key, a date stage
  that does not raise, no \<open>Latitud\<close> or \<open>Longitud\<close> key next to both \<open>lat\<close> and \<open>lon\<close>).
  The slider is created with the range 0 to 10 and the value 4. The threshold is what the
  user chose on it, 4 as long as the user has not moved it, and always within 0 and 10. The
  table handed to the 3D map is the cleaned table cut down to exactly the rows whose
  magnitude is a number \<open>x\<close> with threshold \<open>\<le> x\<close> and whose latitude and longitude are
  both present, in the order of the cleaned table.
\<close>

theorem threshold_filter:
  assumes "respuesta e = Some r" "status_code r = 200" "json r = Some ds"
      and mg: "''Magnitud'' \<in> set (columns (pd_DataFrame ds))"
      and fo: "fechas_ok e ds"
      and nc: "\<not> label_clash (pd_DataFrame ds)"
  shows "\<exists>w df. limpiar e ds = (w, Inr df) \<and>
           St_slider ''Selecciona una magnitud minima para visualizar los sismos'' 0 10 4
             \<in> set (trace (script e)) \<and>
           St_pydeck_chart (sismos_filtrados (magnitud_min e) df) \<in> set (trace (script e)) \<and>
           columns (sismos_filtrados (magnitud_min e) df) = columns df \<and>
           rows (sismos_filtrados (magnitud_min e) df) =
             filter (\<lambda>(i, r). (\<exists>x. cell_at r ''Magnitud'' = Num x \<and> magnitud_min e \<le> x) \<and>
                               cell_at r ''Latitud'' \<noteq> NaN \<and> cell_at r ''Longitud'' \<noteq> NaN)
               (rows df) \<and>
           0 \<le> magnitud_min e \<and> magnitud_min e \<le> 10 \<and>
           (slider_choice e = None \<longrightarrow> magnitud_min e = 4) \<and>
           (\<forall>v. slider_choice e = Some v \<and> 0 \<le> v \<and> v \<le> 10 \<longrightarrow> magnitud_min e = v)"
proof -
  from limpiar_returns[OF mg fo] obtain w df where l: "limpiar e ds = (w, Inr df)" by blast
  note wf = wf_limpiar[OF l nc]
  have d: "distinct (columns df)" by (rule distinct_limpiar[OF l nc])
  have tr: "trace (script e) =
              preamble @ [St_write ''Conexion exitosa con la API.''] @ w @ fst (mostrar e df)"
    using script_ok[OF assms(1,2,3) l] by simp
  have s: "St_slider ''Selecciona una magnitud minima para visualizar los sismos'' 0 10 4
             \<in> set (trace (script e))"
    unfolding tr using d by (simp add: mostrar_def Let_def)
  have p: "St_pydeck_chart (sismos_filtrados (magnitud_min e) df) \<in> set (trace (script e))"
    unfolding tr using d by (simp add: mostrar_def Let_def)
  have c: "columns (sismos_filtrados (magnitud_min e) df) = columns df"
    by (rule columns_sismos_filtrados)
  have f: "rows (sismos_filtrados (magnitud_min e) df) =
             filter (\<lambda>(i, r). (\<exists>x. cell_at r ''Magnitud'' = Num x \<and> magnitud_min e \<le> x) \<and>
                               cell_at r ''Latitud'' \<noteq> NaN \<and> cell_at r ''Longitud'' \<noteq> NaN)
               (rows df)"
    unfolding rows_sismos_filtrados_wf[OF wf] by (simp add: ge_cell_iff)
  have d4: "slider_choice e = None \<longrightarrow> magnitud_min e = 4"
    by (simp add: magnitud_min_default)
  have dv: "\<forall>v. slider_choice e = Some v \<and> 0 \<le> v \<and> v \<le> 10 \<longrightarrow> magnitud_min e = v"
    by (simp add: magnitud_min_def st_slider_def)
  show ?thesis
    by (intro exI[of _ w] exI[of _ df] conjI) (rule l s p c f magnitud_min_range d4 dv)+
qed

theorem threshold_filter_witness:
  "respuesta env_umbral = Some (Response 200 (Some datos_con_coords)) \<and>
   ''Magnitud'' \<in> set (columns (pd_DataFrame datos_con_coords)) \<and>
   fechas_ok env_umbral datos_con_coords \<and>
   \<not> label_clash (pd_DataFrame datos_con_coords) \<and>
   limpiar env_umbral datos_con_coords = ([], Inr tabla_limpia) \<and>
   slider_choice env_umbral = Some (51 / 10) \<and>
   magnitud_min env_umbral = 51 / 10 \<and>
   St_pydeck_chart (sismos_filtrados (51 / 10) tabla_limpia) \<in> set (trace (script env_umbral)) \<and>
   getitem tabla_limpia ''Magnitud'' = [Num (51 / 10), Num (16 / 5), Num 6, NaN] \<and>
   getitem tabla_limpia ''Latitud'' = [Num (- 33), Num (- 20), NaN, Num (- 30)] \<and>
   rows (sismos_filtrados (51 / 10) tabla_limpia) =
     [(0, [(''Magnitud'', Num (51 / 10)), (''Fecha'', Str ''2024-11-02 10:00:00''),
           (''Latitud'', Num (- 33)), (''Longitud'', Num (- 70))])] \<and>
   slider_choice env_con_coords = None \<and>
   magnitud_min env_con_coords = 4 \<and>
   St_pydeck_chart (sismos_filtrados 4 tabla_limpia) \<in> set (trace (script env_con_coords))"
proof -
  have h1: "respuesta env_umbral = Some (Response 200 (Some datos_con_coords))"
    by (simp add: env_umbral_def env_ejemplo_def)
  have h2: "''Magnitud'' \<in> set (columns (pd_DataFrame datos_con_coords))"
    by (simp add: pd_DataFrame_def datos_con_coords_def)
  have h3: "fechas_ok env_umbral datos_con_coords"
    by (simp add: fechas_ok_def columna_def cell_at_def datos_con_coords_def env_umbral_def
        env_ejemplo_def)
  have h4: "\<not> label_clash (pd_DataFrame datos_con_coords)"
    by (simp add: label_clash_def coords_missing_def pd_DataFrame_def datos_con_coords_def)
  have a: "limpiar env_umbral datos_con_coords = ([], Inr tabla_limpia)"
    by (simp add: env_umbral_def limpiar_datos_con_coords)
  have sc: "slider_choice env_umbral = Some (51 / 10)"
    by (simp add: env_umbral_def env_ejemplo_def)
  from threshold_filter [OF h1 _ _ h2 h3 h4] a
  have dv: "\<forall>v. slider_choice env_umbral = Some v \<and> 0 \<le> v \<and> v \<le> 10 \<longrightarrow> magnitud_min env_umbral = v"
    and p: "St_pydeck_chart (sismos_filtrados (magnitud_min env_umbral) tabla_limpia)
              \<in> set (trace (script env_umbral))"
    and f: "rows (sismos_filtrados (magnitud_min env_umbral) tabla_limpia) =
             filter (\<lambda>(i, r). (\<exists>x. cell_at r ''Magnitud'' = Num x \<and> magnitud_min env_umbral \<le> x) \<and>
                               cell_at r ''Latitud'' \<noteq> NaN \<and> cell_at r ''Longitud'' \<noteq> NaN)
               (rows tabla_limpia)"
    by simp_all
  have m: "magnitud_min env_umbral = 51 / 10"
    using dv[rule_format, of "51 / 10"] sc by simp
  have p': "St_pydeck_chart (sismos_filtrados (51 / 10) tabla_limpia) \<in> set (trace (script env_umbral))"
    using p m by simp
  have g1: "getitem tabla_limpia ''Magnitud'' = [Num (51 / 10), Num (16 / 5), Num 6, NaN]"
    and g2: "getitem tabla_limpia ''Latitud'' = [Num (- 33), Num (- 20), NaN, Num (- 30)]"
    by (simp_all add: tabla_limpia_def getitem_def cell_at_def)
  have f': "rows (sismos_filtrados (51 / 10) tabla_limpia) =
     [(0, [(''Magnitud'', Num (51 / 10)), (''Fecha'', Str ''2024-11-02 10:00:00''),
           (''Latitud'', Num (- 33)), (''Longitud'', Num (- 70))])]"
  proof -
    have "filter (\<lambda>(i, r). (\<exists>x. cell_at r ''Magnitud'' = Num x \<and> 51 / 10 \<le> x) \<and>
                               cell_at r ''Latitud'' \<noteq> NaN \<and> cell_at r ''Longitud'' \<noteq> NaN)
               (rows tabla_limpia) =
          [(0, [(''Magnitud'', Num (51 / 10)), (''Fecha'', Str ''2024-11-02 10:00:00''),
                (''Latitud'', Num (- 33)), (''Longitud'', Num (- 70))])]"
      by (simp only: ge_cell_iff[symmetric]) (simp add: tabla_limpia_def cell_at_def)
    with f show ?thesis unfolding m by (rule trans)
  qed
  have k1: "respuesta env_con_coords = Some (Response 200 (Some datos_con_coords))"
    by (simp add: env_con_coords_def env_ejemplo_def)
  have k3: "fechas_ok env_con_coords datos_con_coords"
    by (simp add: fechas_ok_def columna_def cell_at_def datos_con_coords_def env_con_coords_def
        env_ejemplo_def)
  have b: "limpiar env_con_coords datos_con_coords = ([], Inr tabla_limpia)"
    by (simp add: env_con_coords_def limpiar_datos_con_coords)
  have sn: "slider_choice env_con_coords = None"
    by (simp add: env_con_coords_def env_ejemplo_def)
  from threshold_filter [OF k1 _ _ h2 k3 h4] b
  have d4: "slider_choice env_con_coords = None \<longrightarrow> magnitud_min env_con_coords = 4"
    and p4: "St_pydeck_chart (sismos_filtrados (magnitud_min env_con_coords) tabla_limpia)
              \<in> set (trace (script env_con_coords))"
    by simp_all
  have m4: "magnitud_min env_con_coords = 4"
    using d4 sn by simp
  have p4': "St_pydeck_chart (sismos_filtrados 4 tabla_limpia) \<in> set (trace (script env_con_coords))"
    using p4 m4 by simp
  show ?thesis
    by (intro conjI) (rule h1 h2 h3 h4 a sc m p' g1 g2 f' sn m4 p4')+
qed

subsection \<open>C6\<close>

text \<open>
  C6. The claim as stated (rendering does not reorder the records) fails: line 116 sorts
  \<open>df_sismos\<close> in place. On the example answer the cleaned table starts with the record
  dated 2 November, and the table at exit starts with a record dated 1 November.
\<close>

theorem table_unchanged_counterexample:
  "limpiar env_con_coords datos_con_coords = ([], Inr tabla_limpia) \<and>
   celda tabla_limpia 0 ''Fecha'' = Str ''2024-11-02 10:00:00'' \<and>
   map_option (\<lambda>d. celda d 0 ''Fecha'') (df_final (script env_con_coords)) = Some (Str ''2024-11-01 08:30:00'') \<and>
   df_final (script env_con_coords) \<noteq> Some tabla_limpia"
proof -
  have a: "limpiar env_con_coords datos_con_coords = ([], Inr tabla_limpia)"
    by (simp add: env_con_coords_def limpiar_datos_con_coords)
  have b: "celda tabla_limpia 0 ''Fecha'' = Str ''2024-11-02 10:00:00''"
    by (simp add: tabla_limpia_def celda_def cell_at_def)
  have c: "map_option (\<lambda>d. celda d 0 ''Fecha'') (df_final (script env_con_coords)) = Some (Str ''2024-11-01 08:30:00'')"
    by (simp add: script_env_con_coords)
       (simp add: sort_values_def tabla_limpia_def celda_def cell_at_def)
  from b c have d: "df_final (script env_con_coords) \<noteq> Some tabla_limpia"
    by auto
  from a b c d show ?thesis by simp
qed

text \<open>
  C6, as the code has it. In a run with status 200 whose cleaning completes (a
  \<open>Magnitud\<close> key, a date stage that does not raise), the table at exit has the columns
  and exactly the rows (index label and cells) of the cleaned table, none added, dropped or
  rewritten. When the run reaches line 116, which it does on an answer with no \<open>Latitud\<close>
  or \<open>Longitud\<close> key next to both \<open>lat\<close> and \<open>lon\<close>, the rows are in ascending order of
  the date string, missing dates last.
\<close>

theorem table_only_reordered:
  assumes "respuesta e = Some r" "status_code r = 200" "json r = Some ds"
      and mg: "''Magnitud'' \<in> set (columns (pd_DataFrame ds))"
      and fo: "fechas_ok e ds"
  shows "\<exists>w df df'. limpiar e ds = (w, Inr df) \<and> df_final (script e) = Some df' \<and>
           columns df' = columns df \<and> mset (rows df') = mset (rows df) \<and>
           (\<not> label_clash (pd_DataFrame ds) \<longrightarrow>
              sorted (map (\<lambda>(i, r). sort_rank (cell_at r ''Fecha'')) (rows df')))"
proof -
  from limpiar_returns[OF mg fo] obtain w df where l: "limpiar e ds = (w, Inr df)" by blast
  define df' where "df' = snd (snd (mostrar e df))"
  have f: "df_final (script e) = Some df'"
    using script_ok[OF assms(1,2,3) l] by (simp add: df'_def)
  have cases: "df' = df \<or> df' = sort_values ''Fecha'' df"
    by (simp add: df'_def mostrar_def Let_def)
  have c: "columns df' = columns df"
    using cases by (auto simp: sort_values_def)
  have m: "mset (rows df') = mset (rows df)"
    using cases by (auto simp: sort_values_def)
  have s: "\<not> label_clash (pd_DataFrame ds) \<longrightarrow>
             sorted (map (\<lambda>(i, r). sort_rank (cell_at r ''Fecha'')) (rows df'))"
  proof
    assume nc: "\<not> label_clash (pd_DataFrame ds)"
    have "df' = sort_values ''Fecha'' df"
      using mostrar_distinct(2)[OF distinct_limpiar[OF l nc]] by (simp add: df'_def)
    then show "sorted (map (\<lambda>(i, r). sort_rank (cell_at r ''Fecha'')) (rows df'))"
      by (simp add: sort_values_def)
  qed
  show ?thesis
    by (intro exI[of _ w] exI[of _ df] exI[of _ df'] conjI) (rule l f c m s)+
qed

theorem table_only_reordered_witness:
  "respuesta env_con_coords = Some (Response 200 (Some datos_con_coords)) \<and>
   ''Magnitud'' \<in> set (columns (pd_DataFrame datos_con_coords)) \<and>
   fechas_ok env_con_coords datos_con_coords \<and>
   \<not> label_clash (pd_DataFrame datos_con_coords) \<and>
   (\<exists>df'. limpiar env_con_coords datos_con_coords = ([], Inr tabla_limpia) \<and>
      df_final (script env_con_coords) = Some df' \<and>
      columns df' = columns tabla_limpia \<and> mset (rows df') = mset (rows tabla_limpia) \<and>
      sorted (map (\<lambda>(i, r). sort_rank (cell_at r ''Fecha'')) (rows df')) \<and>
      map fst (rows tabla_limpia) = [0, 1, 2, 3] \<and>
      getitem df' ''Fecha'' = [Str ''2024-11-01 08:30:00'', Str ''2024-11-01 08:30:00'', Str ''2024-11-02 10:00:00'', NaN])"
proof -
  have h1: "respuesta env_con_coords = Some (Response 200 (Some datos_con_coords))"
    by (simp add: env_con_coords_def env_ejemplo_def)
  have h2: "''Magnitud'' \<in> set (columns (pd_DataFrame datos_con_coords))"
    by (simp add: pd_DataFrame_def datos_con_coords_def)
  have h3: "fechas_ok env_con_coords datos_con_coords"
    by (simp add: fechas_ok_def columna_def cell_at_def datos_con_coords_def env_con_coords_def
        env_ejemplo_def)
  have h4: "\<not> label_clash (pd_DataFrame datos_con_coords)"
    by (simp add: label_clash_def coords_missing_def pd_DataFrame_def datos_con_coords_def)
  have a: "limpiar env_con_coords datos_con_coords = ([], Inr tabla_limpia)"
    by (simp add: env_con_coords_def limpiar_datos_con_coords)
  from table_only_reordered [OF h1 _ _ h2 h3] a h4
  obtain df' where f: "df_final (script env_con_coords) = Some df'"
    and c: "columns df' = columns tabla_limpia"
    and m: "mset (rows df') = mset (rows tabla_limpia)"
    and s: "sorted (map (\<lambda>(i, r). sort_rank (cell_at r ''Fecha'')) (rows df'))"
    by (elim exE conjE | simp)+
  have i: "map fst (rows tabla_limpia) = [0, 1, 2, 3]"
    by (simp add: tabla_limpia_def)
  have "map_option (\<lambda>d. getitem d ''Fecha'') (df_final (script env_con_coords))
          = Some [Str ''2024-11-01 08:30:00'', Str ''2024-11-01 08:30:00'', Str ''2024-11-02 10:00:00'', NaN]"
    by (simp add: script_env_con_coords)
       (simp add: sort_values_def tabla_limpia_def getitem_def cell_at_def)
  with f have g: "getitem df' ''Fecha'' = [Str ''2024-11-01 08:30:00'', Str ''2024-11-01 08:30:00'', Str ''2024-11-02 10:00:00'', NaN]"
    by simp
  have "\<exists>df'. limpiar env_con_coords datos_con_coords = ([], Inr tabla_limpia) \<and>
      df_final (script env_con_coords) = Some df' \<and>
      columns df' = columns tabla_limpia \<and> mset (rows df') = mset (rows tabla_limpia) \<and>
      sorted (map (\<lambda>(i, r). sort_rank (cell_at r ''Fecha'')) (rows df')) \<and>
      map fst (rows tabla_limpia) = [0, 1, 2, 3] \<and>
      getitem df' ''Fecha'' = [Str ''2024-11-01 08:30:00'', Str ''2024-11-01 08:30:00'', Str ''2024-11-02 10:00:00'', NaN]"
    by (intro exI[of _ df'] conjI) (rule a f c m s i g)+
  with h1 h2 h3 h4 show ?thesis by simp
qed

subsection \<open>C7\<close>

text \<open>
  C7. With an answer whose status is not 200 the script shows the error message and does
  nothing else after the request: no parsing, cleaning, statistics, filter or chart, and no
  table. With status 200 the error message is never shown.
\<close>

theorem status_check:
  assumes "respuesta e = Some r"
  shows "if status_code r = 200 then filter is_error (trace (script e)) = []
         else script e = \<lparr>trace = preamble @ [St_error ''Error al conectar con la API.''],
                          raised = None, df_final = None\<rparr>"
proof (cases "status_code r = 200")
  case False
  with assms show ?thesis by (simp add: script_def)
next
  case True
  have pre: "filter is_error preamble = []"
    by (simp add: preamble_def)
  have "filter is_error (trace (script e)) = []"
  proof (cases "json r")
    case None
    with assms True show ?thesis by (simp add: script_def pre)
  next
    case (Some ds)
    obtain w res where l: "limpiar e ds = (w, res)" by (cases "limpiar e ds")
    have w: "filter is_error w = []"
      using limpiar_warnings[of e ds] l by (simp add: warnings_no_error)
    show ?thesis
    proof (cases res)
      case (Inl x)
      with assms True Some l w show ?thesis by (simp add: script_def pre)
    next
      case (Inr df)
      with assms True Some l w show ?thesis
        by (simp add: script_ok pre mostrar_no_error)
    qed
  qed
  with True show ?thesis by simp
qed

theorem status_check_witness:
  "respuesta (env_ejemplo (Some (Response 503 None)) None) = Some (Response 503 None)
   \<and> script (env_ejemplo (Some (Response 503 None)) None)
       = \<lparr>trace = [St_title ''Aplicacion Sismos :D'', St_header ''Descripcion de los datos'',
                   St_write ''descripcion'',
                   Requests_get ''https://api.gael.cloud/general/public/sismos'',
                   St_error ''Error al conectar con la API.''],
          raised = None, df_final = None\<rparr>
   \<and> respuesta (env_ejemplo (Some (Response 200 (Some [[(''Magnitud'', Str ''5.1'')]]))) None)
       = Some (Response 200 (Some [[(''Magnitud'', Str ''5.1'')]]))
   \<and> filter is_error (trace (script (env_ejemplo (Some (Response 200 (Some [[(''Magnitud'', Str ''5.1'')]]))) None))) = []"
  using status_check [of "env_ejemplo (Some (Response 503 None)) None" "Response 503 None"]
        status_check [of "env_ejemplo (Some (Response 200 (Some [[(''Magnitud'', Str ''5.1'')]]))) None"
                         "Response 200 (Some [[(''Magnitud'', Str ''5.1'')]])"]
  by (simp add: env_ejemplo_def preamble_def URL_def)

subsection \<open>C8\<close>

text \<open>
  C8. Every run issues exactly one HTTP GET, to the fixed URL, whatever the outcome of the
  request and of the rest of the run.
\<close>

theorem one_get: "filter is_get (trace (script e)) = [Requests_get ''https://api.gael.cloud/general/public/sismos'']"
proof -
  have pre: "filter is_get preamble = [Requests_get ''https://api.gael.cloud/general/public/sismos'']"
    by (simp add: preamble_def URL_def)
  show ?thesis
  proof (cases "respuesta e")
    case None
    then show ?thesis by (simp add: script_def pre)
  next
    case (Some r)
    show ?thesis
    proof (cases "status_code r = 200")
      case False
      with Some show ?thesis by (simp add: script_def pre)
    next
      case True
      show ?thesis
      proof (cases "json r")
        case None
        with Some True show ?thesis by (simp add: script_def pre)
      next
        case (Some ds)
        obtain w res where l: "limpiar e ds = (w, res)" by (cases "limpiar e ds")
        have w: "filter is_get w = []"
          using limpiar_warnings[of e ds] l by (simp add: warnings_no_get)
        show ?thesis
        proof (cases res)
          case (Inl x)
          with \<open>respuesta e = Some r\<close> True Some l w show ?thesis
            by (simp add: script_def pre)
        next
          case (Inr df)
          with \<open>respuesta e = Some r\<close> True Some l w show ?thesis
            by (simp add: script_ok pre mostrar_no_get)
        qed
      qed
    qed
  qed
qed

subsection \<open>C9\<close>

text \<open>
  C9. A record whose magnitude does not parse has a missing magnitude in every cleaned
  table, and the row with its index label is in no filtered table, whatever the threshold
  (the comparison of line 70 is false on a missing value). The table is cleaned when the
  date stage does not raise.
\<close>

theorem unparsed_magnitude_excluded:
  assumes mg: "''Magnitud'' \<in> set (columns (pd_DataFrame ds))"
      and i: "i < length ds"
      and un: "to_numeric e (cell_at (ds ! i) ''Magnitud'') = None"
  shows "(\<forall>w df. limpiar e ds = (w, Inr df) \<longrightarrow>
            etiqueta df i = i \<and> celda df i ''Magnitud'' = NaN \<and>
            (\<forall>m. i \<notin> fst ` set (rows (sismos_filtrados m df)))) \<and>
         (fechas_ok e ds \<longrightarrow> (\<exists>w df. limpiar e ds = (w, Inr df)))"
proof (intro conjI allI impI)
  fix w df assume l: "limpiar e ds = (w, Inr df)"
  show "etiqueta df i = i" by (rule limpiar_celdas(1)[OF l i])
  show nan: "celda df i ''Magnitud'' = NaN"
    using limpiar_celdas(2)[OF l i] un by (simp add: coerce_numeric_def)
  fix m
  show "i \<notin> fst ` set (rows (sismos_filtrados m df))"
  proof
    assume "i \<in> fst ` set (rows (sismos_filtrados m df))"
    then obtain r where r: "(i, r) \<in> set (rows df)" "ge_cell (cell_at r ''Magnitud'') m"
      by (auto simp: rows_sismos_filtrados)
    from row_by_label[OF map_fst_rows_limpiar[OF l] r(1)]
    have "cell_at r ''Magnitud'' = celda df i ''Magnitud''"
      by (simp add: celda_def)
    with nan r(2) show False by simp
  qed
next
  assume "fechas_ok e ds"
  with mg show "\<exists>w df. limpiar e ds = (w, Inr df)"
    by (rule limpiar_returns)
qed

theorem unparsed_magnitude_excluded_witness:
  "''Magnitud'' \<in> set (columns (pd_DataFrame datos_api)) \<and>
   to_numeric (env_ejemplo None (Some 0)) (cell_at (datos_api ! 2) ''Magnitud'') = None \<and>
   magnitud_min (env_ejemplo None (Some 0)) = 0 \<and>
   fechas_ok (env_ejemplo None (Some 0)) datos_api \<and>
   (\<exists>w df. limpiar (env_ejemplo None (Some 0)) datos_api = (w, Inr df) \<and>
      celda df 2 ''Magnitud'' = NaN \<and>
      2 \<notin> fst ` set (rows (sismos_filtrados (magnitud_min (env_ejemplo None (Some 0))) df)) \<and>
      map fst (rows (sismos_filtrados (magnitud_min (env_ejemplo None (Some 0))) df)) = [0, 1])"
proof -
  have h1: "''Magnitud'' \<in> set (columns (pd_DataFrame datos_api))"
    by (simp add: pd_DataFrame_def datos_api_def)
  have h2: "(2::nat) < length datos_api"
    by (simp add: datos_api_def)
  have h3: "to_numeric (env_ejemplo None (Some 0)) (cell_at (datos_api ! 2) ''Magnitud'') = None"
    by (simp add: env_ejemplo_def datos_api_def cell_at_def)
  have h4: "magnitud_min (env_ejemplo None (Some 0)) = 0"
    by (simp add: magnitud_min_def st_slider_def env_ejemplo_def)
  have h5: "fechas_ok (env_ejemplo None (Some 0)) datos_api"
    by (simp add: fechas_ok_def columna_def cell_at_def datos_api_def env_ejemplo_def)
  note t = unparsed_magnitude_excluded [OF h1 h2 h3]
  from t h5 obtain w df where l: "limpiar (env_ejemplo None (Some 0)) datos_api = (w, Inr df)"
    by blast
  from t l have nan: "celda df 2 ''Magnitud'' = NaN"
    and out: "\<forall>m. 2 \<notin> fst ` set (rows (sismos_filtrados m df))"
    by blast+
  have "(case snd (limpiar (env_ejemplo None (Some 0)) datos_api) of
           Inr d \<Rightarrow> map fst (rows (sismos_filtrados 0 d)) | Inl x \<Rightarrow> []) = [0, 1]"
    by code_simp
  with l h4 have kept: "map fst (rows (sismos_filtrados (magnitud_min (env_ejemplo None (Some 0))) df)) = [0, 1]"
    by simp
  from out have out0: "2 \<notin> fst ` set (rows (sismos_filtrados (magnitud_min (env_ejemplo None (Some 0))) df))"
    by (rule spec)
  show ?thesis
    by (intro conjI exI[of _ w] exI[of _ df]) (rule h1 h3 h4 h5 l nan out0 kept)+
qed

subsection \<open>C10\<close>

text \<open>
  C10. When exactly one of the columns \<open>lat\<close> and \<open>lon\<close> is in the answer, line 32 takes
  the missing-coordinates branch: the warning is shown and the columns \<open>Latitud\<close> and
  \<open>Longitud\<close> are, for every record, the values drawn from the generator; they depend on
  the number of records only, not on the values of the column that was present. This holds
  of the table as lines 40 and 41 leave it, and of every cleaned table; and the table is
  cleaned when the answer has a \<open>Magnitud\<close> key and the date stage does not raise.
\<close>

theorem one_coordinate_column:
  assumes one: "(''lat'' \<in> set (columns (pd_DataFrame ds))) \<noteq> (''lon'' \<in> set (columns (pd_DataFrame ds)))"
  shows "coords_missing (pd_DataFrame ds) \<and>
         (\<exists>df1 pos. coordenadas e (pd_DataFrame ds) =
              ([St_warning ''No se encontraron las columnas de latitud y longitud en los datos. Creando ubicaciones aleatorias dentro de Chile.''],
               df1, pos) \<and>
            getitem df1 ''Latitud'' = np_random_uniform (- 55) (- 35 / 2) (length ds) (random_sample e) 0 \<and>
            getitem df1 ''Longitud'' = np_random_uniform (- 75) (- 66) (length ds) (random_sample e) (length ds)) \<and>
         (\<forall>w df. limpiar e ds = (w, Inr df) \<longrightarrow>
            St_warning ''No se encontraron las columnas de latitud y longitud en los datos. Creando ubicaciones aleatorias dentro de Chile.'' \<in> set w \<and>
            getitem df ''Latitud'' = np_random_uniform (- 55) (- 35 / 2) (length ds) (random_sample e) 0 \<and>
            getitem df ''Longitud'' = np_random_uniform (- 75) (- 66) (length ds) (random_sample e) (length ds)) \<and>
         (''Magnitud'' \<in> set (columns (pd_DataFrame ds)) \<and> fechas_ok e ds \<longrightarrow>
            (\<exists>w df. limpiar e ds = (w, Inr df)))"
proof (intro conjI allI impI)
  show cm: "coords_missing (pd_DataFrame ds)"
    using one by (auto simp: coords_missing_def)
  obtain w1 df1 pos where c: "coordenadas e (pd_DataFrame ds) = (w1, df1, pos)"
    by (cases "coordenadas e (pd_DataFrame ds)")
  have w1: "w1 = [St_warning ''No se encontraron las columnas de latitud y longitud en los datos. Creando ubicaciones aleatorias dentro de Chile.'']"
    using c cm by (auto simp: coordenadas_missing_eq)
  have n1: "length (rows df1) = length ds"
    by (rule coordenadas_missing_rows(1)[OF c cm])
  have la1: "getitem df1 ''Latitud'' = np_random_uniform (- 55) (- 35 / 2) (length ds) (random_sample e) 0"
    unfolding getitem_eq_celdas n1 np_random_uniform_def
    using coordenadas_missing_rows(2)[OF c cm] by simp
  have lo1: "getitem df1 ''Longitud'' = np_random_uniform (- 75) (- 66) (length ds) (random_sample e) (length ds)"
    unfolding getitem_eq_celdas n1 np_random_uniform_def
    using coordenadas_missing_rows(3)[OF c cm] by simp
  from c w1 la1 lo1
  show "\<exists>df1 pos. coordenadas e (pd_DataFrame ds) =
              ([St_warning ''No se encontraron las columnas de latitud y longitud en los datos. Creando ubicaciones aleatorias dentro de Chile.''],
               df1, pos) \<and>
            getitem df1 ''Latitud'' = np_random_uniform (- 55) (- 35 / 2) (length ds) (random_sample e) 0 \<and>
            getitem df1 ''Longitud'' = np_random_uniform (- 75) (- 66) (length ds) (random_sample e) (length ds)"
    by blast
  {
    fix w df assume l: "limpiar e ds = (w, Inr df)"
    have n: "length (rows df) = length ds" by (rule limpiar_length[OF l])
    show "St_warning ''No se encontraron las columnas de latitud y longitud en los datos. Creando ubicaciones aleatorias dentro de Chile.'' \<in> set w"
      by (rule limpiar_warning_coords[OF l cm])
    show "getitem df ''Latitud'' = np_random_uniform (- 55) (- 35 / 2) (length ds) (random_sample e) 0"
      unfolding getitem_eq_celdas n np_random_uniform_def
      using limpiar_celdas(4)[OF l _ cm] by (simp add: lat_min_def lat_max_def)
    show "getitem df ''Longitud'' = np_random_uniform (- 75) (- 66) (length ds) (random_sample e) (length ds)"
      unfolding getitem_eq_celdas n np_random_uniform_def
      using limpiar_celdas(5)[OF l _ cm] by (simp add: lon_min_def lon_max_def)
  }
  assume "''Magnitud'' \<in> set (columns (pd_DataFrame ds)) \<and> fechas_ok e ds"
  then show "\<exists>w df. limpiar e ds = (w, Inr df)"
    using limpiar_returns by blast
qed

theorem one_coordinate_column_witness:
  "(''lat'' \<in> set (columns (pd_DataFrame datos_solo_lat))) \<noteq> (''lon'' \<in> set (columns (pd_DataFrame datos_solo_lat))) \<and>
   ''Magnitud'' \<in> set (columns (pd_DataFrame datos_solo_lat)) \<and>
   fechas_ok (env_ejemplo None None) datos_solo_lat \<and>
   coords_missing (pd_DataFrame datos_solo_lat) \<and>
   (\<exists>w df. limpiar (env_ejemplo None None) datos_solo_lat = (w, Inr df) \<and>
      getitem df ''lat'' = [Num (- 33), Num (- 20)] \<and>
      getitem df ''Latitud'' = [Num (- 145 / 4), Num (- 85 / 2)] \<and>
      getitem df ''Longitud'' = [Num (- 291 / 4), Num (- 366 / 5)])"
proof -
  have h1: "(''lat'' \<in> set (columns (pd_DataFrame datos_solo_lat))) \<noteq> (''lon'' \<in> set (columns (pd_DataFrame datos_solo_lat)))"
    by (simp add: pd_DataFrame_def datos_solo_lat_def)
  have h2: "''Magnitud'' \<in> set (columns (pd_DataFrame datos_solo_lat))"
    by (simp add: pd_DataFrame_def datos_solo_lat_def)
  have n: "length datos_solo_lat = 2"
    by (simp add: datos_solo_lat_def)
  have h3: "fechas_ok (env_ejemplo None None) datos_solo_lat"
    by (simp add: fechas_ok_def columna_def cell_at_def datos_solo_lat_def env_ejemplo_def)
  note t = one_coordinate_column [OF h1, of "env_ejemplo None None"]
  from t have cm: "coords_missing (pd_DataFrame datos_solo_lat)" by blast
  from t h2 h3 obtain w df where l: "limpiar (env_ejemplo None None) datos_solo_lat = (w, Inr df)"
    by blast
  from t l
  have la: "getitem df ''Latitud'' = np_random_uniform (- 55) (- 35 / 2) (length datos_solo_lat) (random_sample (env_ejemplo None None)) 0"
    and lo: "getitem df ''Longitud'' = np_random_uniform (- 75) (- 66) (length datos_solo_lat) (random_sample (env_ejemplo None None)) (length datos_solo_lat)"
    by blast+
  have la': "getitem df ''Latitud'' = [Num (- 145 / 4), Num (- 85 / 2)]"
    using la by (simp add: n np_random_uniform_def env_ejemplo_def upt_rec)
  have lo': "getitem df ''Longitud'' = [Num (- 291 / 4), Num (- 366 / 5)]"
    using lo by (simp add: n np_random_uniform_def env_ejemplo_def upt_rec)
  have "(case snd (limpiar (env_ejemplo None None) datos_solo_lat) of
           Inr d \<Rightarrow> getitem d ''lat'' | Inl x \<Rightarrow> []) = [Num (- 33), Num (- 20)]"
    by code_simp
  with l have lt: "getitem df ''lat'' = [Num (- 33), Num (- 20)]"
    by simp
  from h1 h2 h3 cm l lt la' lo' show ?thesis by blast
qed

subsection \<open>Beyond the claims\<close>

text \<open>
  X1. When the answer has status 200 and no record with a \<open>Magnitud\<close> key (an empty
  list is such an answer), line 47 raises KeyError: the run ends there, with no table and
  no chart.
\<close>

theorem missing_magnitud_raises:
  assumes "respuesta e = Some r" "status_code r = 200" "json r = Some ds"
      and nm: "''Magnitud'' \<notin> set (columns (pd_DataFrame ds))"
  shows "raised (script e) = Some (KeyError ''Magnitud'') \<and> df_final (script e) = None \<and>
         filter is_chart (trace (script e)) = []"
proof -
  obtain w res where l: "limpiar e ds = (w, res)" by (cases "limpiar e ds")
  have res: "res = Inl (KeyError ''Magnitud'')"
    using limpiar_raises[OF nm, of e] l by simp
  have w: "filter is_chart w = []"
    using limpiar_warnings[of e ds] l by (simp add: warnings_no_chart)
  show ?thesis
    using assms(1,2,3) l res w by (simp add: script_def preamble_def)
qed

theorem missing_magnitud_raises_witness:
  "respuesta (env_ejemplo (Some (Response 200 (Some []))) None) = Some (Response 200 (Some [])) \<and>
   ''Magnitud'' \<notin> set (columns (pd_DataFrame [])) \<and>
   script (env_ejemplo (Some (Response 200 (Some []))) None) =
     \<lparr>trace = [St_title ''Aplicacion Sismos :D'', St_header ''Descripcion de los datos'',
                St_write ''descripcion'',
                Requests_get ''https://api.gael.cloud/general/public/sismos'',
                St_write ''Conexion exitosa con la API.'',
                St_warning ''No se encontraron las columnas de latitud y longitud en los datos. Creando ubicaciones aleatorias dentro de Chile.''],
      raised = Some (KeyError ''Magnitud''), df_final = None\<rparr>"
proof -
  have h1: "respuesta (env_ejemplo (Some (Response 200 (Some []))) None) = Some (Response 200 (Some []))"
    by (simp add: env_ejemplo_def)
  have h2: "''Magnitud'' \<notin> set (columns (pd_DataFrame []))"
    by (simp add: pd_DataFrame_def)
  from missing_magnitud_raises [OF h1 _ _ h2]
  have r: "raised (script (env_ejemplo (Some (Response 200 (Some []))) None)) = Some (KeyError ''Magnitud'')"
    by simp
  have "script (env_ejemplo (Some (Response 200 (Some []))) None) =
     \<lparr>trace = [St_title ''Aplicacion Sismos :D'', St_header ''Descripcion de los datos'',
                St_write ''descripcion'',
                Requests_get ''https://api.gael.cloud/general/public/sismos'',
                St_write ''Conexion exitosa con la API.'',
                St_warning ''No se encontraron las columnas de latitud y longitud en los datos. Creando ubicaciones aleatorias dentro de Chile.''],
      raised = Some (KeyError ''Magnitud''), df_final = None\<rparr>"
    by code_simp
  with h1 h2 r show ?thesis by simp
qed

text \<open>
  X2. When the dates of the answer cannot be read as one column (\<open>to_datetime\<close> raises),
  the run ends in the date stage with that exception: no table is cleaned and no chart is
  drawn.
\<close>

theorem date_stage_raises:
  assumes "respuesta e = Some r" "status_code r = 200" "json r = Some ds"
      and mg: "''Magnitud'' \<in> set (columns (pd_DataFrame ds))"
      and fc: "''Fecha'' \<in> set (columns (pd_DataFrame ds))"
      and td: "to_datetime e (columna ds ''Fecha'') = Inl x"
  shows "raised (script e) = Some x \<and> df_final (script e) = None \<and>
         filter is_chart (trace (script e)) = []"
proof -
  obtain w res where l: "limpiar e ds = (w, res)" by (cases "limpiar e ds")
  have res: "res = Inl x"
    using limpiar_fecha_raises[OF mg fc td] l by simp
  have w: "filter is_chart w = []"
    using limpiar_warnings[of e ds] l by (simp add: warnings_no_chart)
  show ?thesis
    using assms(1,2,3) l res w by (simp add: script_def preamble_def)
qed

theorem date_stage_raises_witness:
  "respuesta (env_ejemplo (Some (Response 200 (Some datos_husos))) None)
     = Some (Response 200 (Some datos_husos)) \<and>
   ''Magnitud'' \<in> set (columns (pd_DataFrame datos_husos)) \<and>
   ''Fecha'' \<in> set (columns (pd_DataFrame datos_husos)) \<and>
   to_datetime (env_ejemplo (Some (Response 200 (Some datos_husos))) None)
     (columna datos_husos ''Fecha'') = Inl ValueError \<and>
   raised (script (env_ejemplo (Some (Response 200 (Some datos_husos))) None)) = Some ValueError \<and>
   df_final (script (env_ejemplo (Some (Response 200 (Some datos_husos))) None)) = None \<and>
   filter is_chart (trace (script (env_ejemplo (Some (Response 200 (Some datos_husos))) None))) = []"
proof -
  let ?e = "env_ejemplo (Some (Response 200 (Some datos_husos))) None"
  have h1: "respuesta ?e = Some (Response 200 (Some datos_husos))"
    by (simp add: env_ejemplo_def)
  have h2: "''Magnitud'' \<in> set (columns (pd_DataFrame datos_husos))"
    and h3: "''Fecha'' \<in> set (columns (pd_DataFrame datos_husos))"
    by (simp_all add: pd_DataFrame_def datos_husos_def)
  have h4: "to_datetime ?e (columna datos_husos ''Fecha'') = Inl ValueError"
    by (simp add: env_ejemplo_def columna_def datos_husos_def cell_at_def)
  from date_stage_raises [OF h1 _ _ h2 h3 h4]
  have r: "raised (script ?e) = Some ValueError \<and> df_final (script ?e) = None \<and>
           filter is_chart (trace (script ?e)) = []"
    by simp
  with h1 h2 h3 h4 show ?thesis by simp
qed

text \<open>
  X3. When the answer has \<open>lat\<close>, \<open>lon\<close> and already a \<open>Latitud\<close> or \<open>Longitud\<close> key,
  line 44 leaves two columns under one label and the run ends at line 62 with ValueError:
  no chart is drawn and the table stays as cleaned, unsorted.
\<close>

theorem label_clash_raises:
  assumes "respuesta e = Some r" "status_code r = 200" "json r = Some ds"
      and mg: "''Magnitud'' \<in> set (columns (pd_DataFrame ds))"
      and fo: "fechas_ok e ds"
      and cl: "label_clash (pd_DataFrame ds)"
  shows "\<exists>w df. limpiar e ds = (w, Inr df) \<and> \<not> distinct (columns df) \<and>
           raised (script e) = Some ValueError \<and> df_final (script e) = Some df \<and>
           filter is_chart (trace (script e)) = []"
proof -
  from limpiar_returns[OF mg fo] obtain w df where l: "limpiar e ds = (w, Inr df)" by blast
  have d: "\<not> distinct (columns df)" by (rule clash_not_distinct[OF l cl])
  have w: "filter is_chart w = []"
    using limpiar_warnings[of e ds] l by (simp add: warnings_no_chart)
  have "raised (script e) = Some ValueError \<and> df_final (script e) = Some df \<and>
        filter is_chart (trace (script e)) = []"
    using script_ok[OF assms(1,2,3) l] w by (simp add: mostrar_duplicate[OF d] preamble_def)
  with l d show ?thesis by blast
qed

theorem label_clash_raises_witness:
  "respuesta (env_ejemplo (Some (Response 200 (Some datos_choque))) None)
     = Some (Response 200 (Some datos_choque)) \<and>
   ''Magnitud'' \<in> set (columns (pd_DataFrame datos_choque)) \<and>
   fechas_ok (env_ejemplo (Some (Response 200 (Some datos_choque))) None) datos_choque \<and>
   label_clash (pd_DataFrame datos_choque) \<and>
   (\<exists>w df. limpiar (env_ejemplo (Some (Response 200 (Some datos_choque))) None) datos_choque = (w, Inr df) \<and>
      columns df = [''Magnitud'', ''Fecha'', ''Latitud'', ''Longitud'', ''Latitud''] \<and>
      raised (script (env_ejemplo (Some (Response 200 (Some datos_choque))) None)) = Some ValueError \<and>
      df_final (script (env_ejemplo (Some (Response 200 (Some datos_choque))) None)) = Some df \<and>
      filter is_chart (trace (script (env_ejemplo (Some (Response 200 (Some datos_choque))) None))) = [])"
proof -
  let ?e = "env_ejemplo (Some (Response 200 (Some datos_choque))) None"
  have h1: "respuesta ?e = Some (Response 200 (Some datos_choque))"
    by (simp add: env_ejemplo_def)
  have h2: "''Magnitud'' \<in> set (columns (pd_DataFrame datos_choque))"
    by (simp add: pd_DataFrame_def datos_choque_def)
  have h3: "fechas_ok ?e datos_choque"
    by (simp add: fechas_ok_def columna_def cell_at_def datos_choque_def env_ejemplo_def)
  have h4: "label_clash (pd_DataFrame datos_choque)"
    by (simp add: label_clash_def coords_missing_def pd_DataFrame_def datos_choque_def)
  from label_clash_raises [OF h1 _ _ h2 h3 h4]
  obtain w df where l: "limpiar ?e datos_choque = (w, Inr df)"
    and r: "raised (script ?e) = Some ValueError"
    and f: "df_final (script ?e) = Some df"
    and c: "filter is_chart (trace (script ?e)) = []"
    by (elim exE conjE | simp)+
  have "(case snd (limpiar ?e datos_choque) of Inr d \<Rightarrow> columns d | Inl x \<Rightarrow> [])
          = [''Magnitud'', ''Fecha'', ''Latitud'', ''Longitud'', ''Latitud'']"
    by code_simp
  with l have k: "columns df = [''Magnitud'', ''Fecha'', ''Latitud'', ''Longitud'', ''Latitud'']"
    by simp
  have "\<exists>w df. limpiar ?e datos_choque = (w, Inr df) \<and>
      columns df = [''Magnitud'', ''Fecha'', ''Latitud'', ''Longitud'', ''Latitud''] \<and>
      raised (script ?e) = Some ValueError \<and> df_final (script ?e) = Some df \<and>
      filter is_chart (trace (script ?e)) = []"
    by (intro exI[of _ w] exI[of _ df] conjI) (rule l k r f c)+
  with h1 h2 h3 h4 show ?thesis by simp
qed

end
